theory Spec2Isabelle
  imports Main "HOL-Library.AList" "HOL-Library.Sublist" "HOL-Library.Multiset"
begin

section \<open>Values of a request and of a response\<close>

text \<open>
  The handlers of \<^verbatim>\<open>server.js\<close> read the fields of \<^verbatim>\<open>req.body\<close> and \<^verbatim>\<open>req.query\<close>
  without declaring a type. A field is modelled as absent (\<open>JUndefined\<close>), as JSON
  \<^verbatim>\<open>null\<close>, or as a string, which is what a multipart or url-encoded form delivers and
  what the columns of the table (TEXT) hold. Strings are the bytes of their UTF-8 encoding.
\<close>

datatype jsval = JUndefined | JNull | JStr string

fun truthy :: "jsval \<Rightarrow> bool" where
  "truthy JUndefined = False"
| "truthy JNull = False"
| "truthy (JStr s) = (s \<noteq> [])"

text \<open>\<^verbatim>\<open>x || null\<close>\<close>

definition or_null :: "jsval \<Rightarrow> jsval" where
  "or_null v = (if truthy v then v else JNull)"

type_synonym object = "(string \<times> jsval) list"

text \<open>\<^verbatim>\<open>const { k } = obj\<close>: a key the object does not have reads \<^verbatim>\<open>undefined\<close>.\<close>

definition get_key :: "object \<Rightarrow> string \<Rightarrow> jsval" where
  "get_key obj k = (case map_of obj k of None \<Rightarrow> JUndefined | Some v \<Rightarrow> v)"

definition Object_keys :: "object \<Rightarrow> string list" where
  "Object_keys obj = map fst obj"

text \<open>The body of a JSON response. \<open>JsUndefined\<close> is a property whose value is
  \<^verbatim>\<open>undefined\<close> (the serialiser leaves it out); \<open>JsNumeric t\<close> is the value of a
  column of NUMERIC affinity that was written with the text \<open>t\<close>.\<close>

datatype json =
    JsUndefined
  | JsNull
  | JsStr string
  | JsNum nat
  | JsNumeric string
  | JsArr "json list"
  | JsObj "(string \<times> json) list"

fun js :: "jsval \<Rightarrow> json" where
  "js JUndefined = JsUndefined"
| "js JNull = JsNull"
| "js (JStr s) = JsStr s"

fun nullable :: "string option \<Rightarrow> json" where
  "nullable None = JsNull"
| "nullable (Some s) = JsStr s"

datatype hval = HStr string | HNum nat

text \<open>
  The files of the host: the paths that exist, each with what \<^verbatim>\<open>fs.statSync\<close> reads of
  it (size in bytes, times in milliseconds, whether it is a directory) and with its bytes.
\<close>

record fs_stats =
  size_bytes :: nat
  birthtime :: nat
  mtime :: nat
  isDirectory :: bool

record archivo = fs_stats +
  contenido :: string

type_synonym filesystem = "string \<rightharpoonup> archivo"

text \<open>
  \<open>Json n b\<close> is \<^verbatim>\<open>res.status(n).json(b)\<close> and \<open>End n hs\<close> is
  \<^verbatim>\<open>res.status(n).end()\<close> after the headers \<open>hs\<close> were set. \<open>SendFile hs p a\<close> is
  \<^verbatim>\<open>res.sendFile(p)\<close> after the headers \<open>hs\<close> were set, and \<open>Static p a\<close> is the answer
  of \<^verbatim>\<open>express.static\<close>, for the file \<open>a\<close> found at \<open>p\<close>: the module \<^verbatim>\<open>send\<close> streams
  the bytes of the file with status 200, or answers 206, 304 or 412 as the range and
  conditional headers of the request ask. \<open>Redirect n l\<close> is the redirect of
  \<^verbatim>\<open>serve-static\<close> to the location \<open>l\<close>.
\<close>

datatype response =
    Json nat json
  | End nat "(string \<times> hval) list"
  | SendFile "(string \<times> hval) list" string archivo
  | Static string archivo
  | Redirect nat string

text \<open>The status of a response; the one given for a streamed file is that of a request
  without range and conditional headers.\<close>

fun status :: "response \<Rightarrow> nat" where
  "status (Json n b) = n"
| "status (End n hs) = n"
| "status (SendFile hs p a) = 200"
| "status (Static p a) = 200"
| "status (Redirect n l) = n"

text \<open>Letters outside ASCII, in UTF-8.\<close>

definition e_acute :: string where
  "e_acute = [CHR 0xC3, CHR 0xA9]"

definition n_tilde :: string where
  "n_tilde = [CHR 0xC3, CHR 0xB1]"

definition u_acute :: string where
  "u_acute = [CHR 0xC3, CHR 0xBA]"

definition o_acute :: string where
  "o_acute = [CHR 0xC3, CHR 0xB3]"

section \<open>The table \<^verbatim>\<open>computadores\<close>\<close>

text \<open>
  \<^verbatim>\<open>latitud DECIMAL(10, 8)\<close> and \<^verbatim>\<open>longitud DECIMAL(11, 8)\<close> have NUMERIC affinity: a text
  written there is stored as the number it reads as, when it reads as one, and as itself
  otherwise. \<open>Numeric t\<close> is what the column holds after the text \<open>t\<close> was written to it
  (two texts can give the same number; the conversion is SQLite's and is not computed
  here).
\<close>

datatype numeric = Numeric string

fun nullable_numeric :: "numeric option \<Rightarrow> json" where
  "nullable_numeric None = JsNull"
| "nullable_numeric (Some (Numeric t)) = JsNumeric t"

text \<open>
  \<^verbatim>\<open>createTableSQL\<close>: the seventeen columns that INSERT and UPDATE write, each NULL
  (\<open>None\<close>) or a value, fifteen of them TEXT; then the row with its \<^verbatim>\<open>id\<close> and its
  two timestamps. A timestamp is the reading of \<^verbatim>\<open>CURRENT_TIMESTAMP\<close> in seconds.
\<close>

record campos =
  equipo_id :: "string option"
  serial_number :: "string option"
  placa_ml :: "string option"
  latitud :: "numeric option"
  longitud :: "numeric option"
  direccion_automatica :: "string option"
  ubicacion_manual :: "string option"
  responsable :: "string option"
  cargo :: "string option"
  estado :: "string option"
  windows_update :: "string option"
  foto_frontal :: "string option"
  foto_serial :: "string option"
  foto_placa :: "string option"
  observaciones :: "string option"
  problemas_detectados :: "string option"
  revisor :: "string option"

record computador =
  id_col :: nat
  campos :: campos
  fecha_revision :: nat
  fecha_actualizacion :: nat

text \<open>The table in insertion order, and the largest \<^verbatim>\<open>id\<close> ever given (AUTOINCREMENT).\<close>

record database =
  tabla :: "computador list"
  sqlite_sequence :: nat

definition empty_database :: database where
  "empty_database = \<lparr>tabla = [], sqlite_sequence = 0\<rparr>"

datatype sqlite_error = SqliteError (err_code: string) (err_message: string)

definition estados :: "string list" where
  "estados = [''operativo'', ''mantenimiento'', ''da'' @ n_tilde @ ''ado'']"

definition windows_updates :: "string list" where
  "windows_updates = [''si'', ''no'']"

text \<open>The columns declared NOT NULL, in the order of the table.\<close>

definition not_null_columns :: "(string \<times> (campos \<Rightarrow> string option)) list" where
  "not_null_columns =
     [(''equipo_id'', equipo_id), (''serial_number'', serial_number),
      (''responsable'', responsable), (''cargo'', cargo),
      (''estado'', estado), (''windows_update'', windows_update)]"

definition constraint_failed :: "string \<Rightarrow> sqlite_error" where
  "constraint_failed what = SqliteError ''SQLITE_CONSTRAINT'' (''SQLITE_CONSTRAINT: '' @ what)"

text \<open>
  What SQLite checks before it writes the values \<open>c\<close> beside the rows \<open>others\<close>: NOT NULL,
  then the two CHECK constraints (a CHECK on NULL passes), then UNIQUE on
  \<^verbatim>\<open>equipo_id\<close>. \<^verbatim>\<open>serial_number\<close> has an index, not a UNIQUE constraint.
\<close>

definition constraint_error :: "computador list \<Rightarrow> campos \<Rightarrow> sqlite_error option" where
  "constraint_error others c =
     (case filter (\<lambda>(n, f). f c = None) not_null_columns of
        (n, f) # _ \<Rightarrow> Some (constraint_failed (''NOT NULL constraint failed: computadores.'' @ n))
      | [] \<Rightarrow>
          if (case estado c of Some s \<Rightarrow> s \<notin> set estados | None \<Rightarrow> False)
          then Some (constraint_failed ''CHECK constraint failed: estado'')
          else if (case windows_update c of Some s \<Rightarrow> s \<notin> set windows_updates | None \<Rightarrow> False)
          then Some (constraint_failed ''CHECK constraint failed: windows_update'')
          else if (\<exists>r \<in> set others. equipo_id (campos r) = equipo_id c)
          then Some (constraint_failed ''UNIQUE constraint failed: computadores.equipo_id'')
          else None)"

text \<open>\<^verbatim>\<open>INSERT INTO computadores (...) VALUES (?, ..., ?)\<close> at the time \<open>now\<close>: the new
  \<^verbatim>\<open>id\<close> (\<^verbatim>\<open>this.lastID\<close>) and the new table, or the error and nothing written.\<close>

definition db_run_insert :: "nat \<Rightarrow> campos \<Rightarrow> database \<Rightarrow> sqlite_error + (nat \<times> database)" where
  "db_run_insert now c d =
     (case constraint_error (tabla d) c of
        Some e \<Rightarrow> Inl e
      | None \<Rightarrow>
          let i = sqlite_sequence d + 1 in
          Inr (i, \<lparr>tabla = tabla d @
                      [\<lparr>id_col = i, campos = c, fecha_revision = now, fecha_actualizacion = now\<rparr>],
                    sqlite_sequence = i\<rparr>))"

text \<open>\<^verbatim>\<open>COALESCE(?, col)\<close>\<close>

fun coalesce :: "string option \<Rightarrow> string option \<Rightarrow> string option" where
  "coalesce (Some v) old = Some v"
| "coalesce None old = old"

text \<open>The SET clause of the UPDATE, on one row.\<close>

definition update_set :: "nat \<Rightarrow> campos \<Rightarrow> computador \<Rightarrow> computador" where
  "update_set now c r =
     r\<lparr>campos := c\<lparr>foto_frontal := coalesce (foto_frontal c) (foto_frontal (campos r)),
                    foto_serial := coalesce (foto_serial c) (foto_serial (campos r)),
                    foto_placa := coalesce (foto_placa c) (foto_placa (campos r))\<rparr>,
       fecha_actualizacion := now\<rparr>"

text \<open>\<^verbatim>\<open>UPDATE computadores SET ... WHERE id = ?\<close>: the number of rows changed
  (\<^verbatim>\<open>this.changes\<close>) and the new table, or the error and nothing written.\<close>

definition db_run_update :: "nat \<Rightarrow> campos \<Rightarrow> nat \<Rightarrow> database \<Rightarrow> sqlite_error + (nat \<times> database)" where
  "db_run_update now c i d =
     (case filter (\<lambda>r. id_col r = i) (tabla d) of
        [] \<Rightarrow> Inr (0, d)
      | r # _ \<Rightarrow>
          (case constraint_error (filter (\<lambda>r. id_col r \<noteq> i) (tabla d)) (campos (update_set now c r)) of
             Some e \<Rightarrow> Inl e
           | None \<Rightarrow>
               Inr (1, d\<lparr>tabla := map (\<lambda>r. if id_col r = i then update_set now c r else r) (tabla d)\<rparr>)))"

text \<open>\<^verbatim>\<open>SELECT foto_frontal, foto_serial, foto_placa FROM computadores WHERE id = ?\<close>\<close>

definition db_get_fotos :: "nat \<Rightarrow> database \<Rightarrow> (string option \<times> string option \<times> string option) option" where
  "db_get_fotos i d =
     (case filter (\<lambda>r. id_col r = i) (tabla d) of
        [] \<Rightarrow> None
      | r # _ \<Rightarrow> Some (foto_frontal (campos r), foto_serial (campos r), foto_placa (campos r)))"

text \<open>\<^verbatim>\<open>DELETE FROM computadores WHERE id = ?\<close>\<close>

definition db_run_delete :: "nat \<Rightarrow> database \<Rightarrow> nat \<times> database" where
  "db_run_delete i d =
     (length (filter (\<lambda>r. id_col r = i) (tabla d)),
      d\<lparr>tabla := filter (\<lambda>r. id_col r \<noteq> i) (tabla d)\<rparr>)"

text \<open>The asset tags in the table.\<close>

definition equipo_ids :: "database \<Rightarrow> string option list" where
  "equipo_ids d = map (\<lambda>r. equipo_id (campos r)) (tabla d)"

section \<open>\<^verbatim>\<open>handleDatabaseError\<close>\<close>

text \<open>\<^verbatim>\<open>s.includes(sub)\<close>\<close>

fun js_includes :: "string \<Rightarrow> string \<Rightarrow> bool" where
  "js_includes [] sub = (sub = [])"
| "js_includes (c # cs) sub = (prefix sub (c # cs) \<or> js_includes cs sub)"

definition handleDatabaseError :: "sqlite_error \<Rightarrow> response" where
  "handleDatabaseError err =
     (let details = err_message err in
      let (statusCode, message, details) =
        (if err_code err = ''SQLITE_CONSTRAINT'' then
           (if js_includes (err_message err) ''UNIQUE constraint failed: computadores.equipo_id''
            then (400, ''El ID del equipo ya existe'',
                  ''El identificador del equipo debe ser '' @ u_acute @ ''nico'')
            else if js_includes (err_message err) ''UNIQUE constraint failed: computadores.serial_number''
            then (400, ''El n'' @ u_acute @ ''mero de serie ya existe'',
                  ''El n'' @ u_acute @ ''mero de serie debe ser '' @ u_acute @ ''nico'')
            else (400, ''Error de validaci'' @ o_acute @ ''n de datos'', details))
         else if err_code err = ''SQLITE_ERROR'' then (400, ''Error de consulta SQL'', details)
         else (500, ''Error interno del servidor'', details))
      in Json statusCode
           (JsObj [(''error'', JsStr message), (''details'', JsStr details),
                   (''code'', JsStr (if err_code err \<noteq> [] then err_code err else ''UNKNOWN_ERROR''))]))"

section \<open>Requests and what the handlers read of the outside world\<close>

text \<open>
  \<^verbatim>\<open>req.body\<close>, \<^verbatim>\<open>req.query\<close>, and \<^verbatim>\<open>req.files\<close> as multer leaves it: for each
  photo slot that came as a file, the path where the upload was stored (a request without
  files has none).
\<close>

record request =
  body :: object
  query :: object
  files :: "(string \<times> string) list"

text \<open>
  What a handler reads that is not in the request: the store's \<^verbatim>\<open>CURRENT_TIMESTAMP\<close>,
  the readings of \<^verbatim>\<open>Date.now()\<close> (the k-th reading of the handler, in decimal digits),
  whether \<^verbatim>\<open>fs.writeFileSync\<close> throws for a path (the message of the exception), and
  the bytes that \<^verbatim>\<open>Buffer.from(s, 'base64')\<close> decodes.
\<close>

record entorno =
  CURRENT_TIMESTAMP :: nat
  Date_now :: "nat \<Rightarrow> string"
  writeFileSync_throws :: "string \<Rightarrow> string option"
  from_base64 :: "string \<Rightarrow> string"

datatype js_exception = Exception (exn_name: string) (exn_message: string)

text \<open>A parameter of a statement: a value that is \<^verbatim>\<open>undefined\<close> is left unbound, and
  SQLite reads an unbound parameter as NULL.\<close>

fun sql_param :: "jsval \<Rightarrow> string option" where
  "sql_param JUndefined = None"
| "sql_param JNull = None"
| "sql_param (JStr s) = Some s"

text \<open>\<^verbatim>\<open>s.split(',')\<close>\<close>

fun split_comma :: "string \<Rightarrow> string list" where
  "split_comma [] = [[]]"
| "split_comma (c # cs) =
     (if c = CHR '','' then [] # split_comma cs
      else (case split_comma cs of p # ps \<Rightarrow> (c # p) # ps | [] \<Rightarrow> [[c]]))"

section \<open>The photos of a request\<close>

text \<open>\<^verbatim>\<open>if (req.files) { if (req.files.foto_frontal) foto_frontal_path = req.files.foto_frontal[0].path; }\<close>
  on a path that starts as \<^verbatim>\<open>null\<close>.\<close>

definition uploaded :: "request \<Rightarrow> string \<Rightarrow> jsval" where
  "uploaded req slot = (case map_of (files req) slot of Some p \<Rightarrow> JStr p | None \<Rightarrow> JNull)"

definition buffer_from_undefined :: js_exception where
  "buffer_from_undefined = Exception ''TypeError''
     (''The first argument must be of type string or an instance of Buffer, '' @
      ''ArrayBuffer, or Array or an Array-like Object. Received undefined'')"

text \<open>
  One slot of the \<^verbatim>\<open>try\<close> block, the k-th, with the tail \<open>tag\<close> of its file name:
  \<^verbatim>\<open>
  if (!foto_frontal_path && foto_frontal_base64) {
      const buffer = Buffer.from(foto_frontal_base64.split(',')[1], 'base64');
      foto_frontal_path = `uploads/${Date.now()}-frontal.jpg`;
      fs.writeFileSync(foto_frontal_path, buffer);
  }\<close>
  The result is the exception thrown, or the path and the files written.
\<close>

definition base64_slot ::
  "entorno \<Rightarrow> nat \<Rightarrow> string \<Rightarrow> jsval \<Rightarrow> jsval \<Rightarrow> js_exception + (jsval \<times> (string \<times> string) list)" where
  "base64_slot env k tag path b64 =
     (if \<not> truthy path \<and> truthy b64 then
        (case b64 of
           JStr s \<Rightarrow>
             (case split_comma s of
                _ # payload # _ \<Rightarrow>
                  (let p = ''uploads/'' @ Date_now env k @ tag in
                   case writeFileSync_throws env p of
                     Some m \<Rightarrow> Inl (Exception ''Error'' m)
                   | None \<Rightarrow> Inr (JStr p, [(p, from_base64 env payload)]))
              | _ \<Rightarrow> Inl buffer_from_undefined)
         | _ \<Rightarrow> Inr (path, []))
      else Inr (path, []))"

text \<open>The whole \<^verbatim>\<open>try\<close> block: the three slots in order. An exception ends it; the files
  written before stay written.\<close>

definition procesar_fotos ::
  "entorno \<Rightarrow> string \<times> string \<times> string \<Rightarrow> request
     \<Rightarrow> (js_exception + (jsval \<times> jsval \<times> jsval)) \<times> (string \<times> string) list" where
  "procesar_fotos env tags req =
     (case tags of (t1, t2, t3) \<Rightarrow>
       (case base64_slot env 0 t1 (uploaded req ''foto_frontal'') (get_key (body req) ''foto_frontal_base64'') of
          Inl e \<Rightarrow> (Inl e, [])
        | Inr (foto_frontal_path, w1) \<Rightarrow>
           (case base64_slot env 1 t2 (uploaded req ''foto_serial'') (get_key (body req) ''foto_serial_base64'') of
              Inl e \<Rightarrow> (Inl e, w1)
            | Inr (foto_serial_path, w2) \<Rightarrow>
               (case base64_slot env 2 t3 (uploaded req ''foto_placa'') (get_key (body req) ''foto_placa_base64'') of
                  Inl e \<Rightarrow> (Inl e, w1 @ w2)
                | Inr (foto_placa_path, w3) \<Rightarrow>
                    (Inr (foto_frontal_path, foto_serial_path, foto_placa_path), w1 @ w2 @ w3)))))"

definition error_procesando_fotos :: "js_exception \<Rightarrow> response" where
  "error_procesando_fotos photoErr =
     Json 400 (JsObj [(''error'', JsStr ''Error procesando las fotos''),
                      (''details'', JsStr (exn_message photoErr))])"

text \<open>The three slots: the name of the file field and of the base64 field.\<close>

definition photo_slots :: "(string \<times> string) list" where
  "photo_slots =
     [(''foto_frontal'', ''foto_frontal_base64''), (''foto_serial'', ''foto_serial_base64''),
      (''foto_placa'', ''foto_placa_base64'')]"

section \<open>\<^verbatim>\<open>POST /api/computadores\<close>\<close>

definition required_fields :: "string list" where
  "required_fields =
     [''equipo_id'', ''serial_number'', ''responsable'', ''cargo'', ''estado'', ''windows_update'']"

definition campos_faltantes :: "object \<Rightarrow> response" where
  "campos_faltantes b =
     Json 400 (JsObj [(''error'', JsStr ''Campos requeridos faltantes''),
                      (''required'', JsArr (map JsStr required_fields)),
                      (''received'', JsArr (map JsStr (Object_keys b)))])"

definition registro_creado :: string where
  "registro_creado = ''Registro de soporte t'' @ e_acute @ ''cnico creado exitosamente''"

text \<open>The parameters of the INSERT, in the order of its columns.\<close>

definition insert_params :: "object \<Rightarrow> jsval \<times> jsval \<times> jsval \<Rightarrow> campos" where
  "insert_params b paths =
     (case paths of (foto_frontal_path, foto_serial_path, foto_placa_path) \<Rightarrow>
        \<lparr>equipo_id = sql_param (get_key b ''equipo_id''),
         serial_number = sql_param (get_key b ''serial_number''),
         placa_ml = sql_param (or_null (get_key b ''placa_ml'')),
         latitud = map_option Numeric (sql_param (or_null (get_key b ''latitud''))),
         longitud = map_option Numeric (sql_param (or_null (get_key b ''longitud''))),
         direccion_automatica = sql_param (or_null (get_key b ''direccion_automatica'')),
         ubicacion_manual = sql_param (or_null (get_key b ''ubicacion_manual'')),
         responsable = sql_param (get_key b ''responsable''),
         cargo = sql_param (get_key b ''cargo''),
         estado = sql_param (get_key b ''estado''),
         windows_update = sql_param (get_key b ''windows_update''),
         foto_frontal = sql_param foto_frontal_path,
         foto_serial = sql_param foto_serial_path,
         foto_placa = sql_param foto_placa_path,
         observaciones = sql_param (or_null (get_key b ''observaciones'')),
         problemas_detectados = sql_param (or_null (get_key b ''problemas_detectados'')),
         revisor = sql_param (or_null (get_key b ''revisor''))\<rparr>)"

definition post_tags :: "string \<times> string \<times> string" where
  "post_tags = (''-frontal.jpg'', ''-serial.jpg'', ''-placa.jpg'')"

text \<open>The handler, on a store that is ready: the response, the store after it, and the
  files it wrote.\<close>

definition post_computadores ::
  "entorno \<Rightarrow> request \<Rightarrow> database \<Rightarrow> response \<times> database \<times> (string \<times> string) list" where
  "post_computadores env req d =
     (let b = body req in
      if \<not> truthy (get_key b ''equipo_id'') \<or> \<not> truthy (get_key b ''serial_number'') \<or>
         \<not> truthy (get_key b ''responsable'') \<or> \<not> truthy (get_key b ''cargo'') \<or>
         \<not> truthy (get_key b ''estado'') \<or> \<not> truthy (get_key b ''windows_update'')
      then (campos_faltantes b, d, [])
      else
        case procesar_fotos env post_tags req of
          (Inl photoErr, written) \<Rightarrow> (error_procesando_fotos photoErr, d, written)
        | (Inr paths, written) \<Rightarrow>
            (case db_run_insert (CURRENT_TIMESTAMP env) (insert_params b paths) d of
               Inl err \<Rightarrow> (handleDatabaseError err, d, written)
             | Inr (lastID, d') \<Rightarrow>
                 (Json 201 (JsObj [(''id'', JsNum lastID),
                                   (''equipo_id'', js (get_key b ''equipo_id'')),
                                   (''serial_number'', js (get_key b ''serial_number'')),
                                   (''message'', JsStr registro_creado)]),
                  d', written)))"

section \<open>\<^verbatim>\<open>PUT /api/computadores/:id\<close>\<close>

text \<open>The route parameter is the \<^verbatim>\<open>id\<close> that SQLite compares with the column; a parameter
  that is not the text of a number equals no \<^verbatim>\<open>id\<close> and behaves as one that no row has.\<close>

definition update_params :: "object \<Rightarrow> jsval \<times> jsval \<times> jsval \<Rightarrow> campos" where
  "update_params b paths =
     (case paths of (foto_frontal_path, foto_serial_path, foto_placa_path) \<Rightarrow>
        \<lparr>equipo_id = sql_param (get_key b ''equipo_id''),
         serial_number = sql_param (get_key b ''serial_number''),
         placa_ml = sql_param (get_key b ''placa_ml''),
         latitud = map_option Numeric (sql_param (get_key b ''latitud'')),
         longitud = map_option Numeric (sql_param (get_key b ''longitud'')),
         direccion_automatica = sql_param (get_key b ''direccion_automatica''),
         ubicacion_manual = sql_param (get_key b ''ubicacion_manual''),
         responsable = sql_param (get_key b ''responsable''),
         cargo = sql_param (get_key b ''cargo''),
         estado = sql_param (get_key b ''estado''),
         windows_update = sql_param (get_key b ''windows_update''),
         foto_frontal = sql_param foto_frontal_path,
         foto_serial = sql_param foto_serial_path,
         foto_placa = sql_param foto_placa_path,
         observaciones = sql_param (get_key b ''observaciones''),
         problemas_detectados = sql_param (get_key b ''problemas_detectados''),
         revisor = sql_param (get_key b ''revisor'')\<rparr>)"

definition put_tags :: "string \<times> string \<times> string" where
  "put_tags = (''-frontal-update.jpg'', ''-serial-update.jpg'', ''-placa-update.jpg'')"

definition registro_no_encontrado :: response where
  "registro_no_encontrado = Json 404 (JsObj [(''error'', JsStr ''Registro no encontrado'')])"

definition put_computadores ::
  "entorno \<Rightarrow> nat \<Rightarrow> request \<Rightarrow> database \<Rightarrow> response \<times> database \<times> (string \<times> string) list" where
  "put_computadores env i req d =
     (let b = body req in
      case procesar_fotos env put_tags req of
        (Inl photoErr, written) \<Rightarrow> (error_procesando_fotos photoErr, d, written)
      | (Inr paths, written) \<Rightarrow>
          (case db_run_update (CURRENT_TIMESTAMP env) (update_params b paths) i d of
             Inl err \<Rightarrow> (handleDatabaseError err, d, written)
           | Inr (changes, d') \<Rightarrow>
               if changes = 0 then (registro_no_encontrado, d', written)
               else (Json 200 (JsObj [(''message'', JsStr ''Registro de soporte actualizado exitosamente'')]),
                     d', written)))"


section \<open>\<^verbatim>\<open>DELETE /api/computadores/:id\<close>\<close>

text \<open>What the loop over the three paths logs: a file removed, or the exception of
  \<^verbatim>\<open>fs.unlinkSync\<close>, caught.\<close>

datatype unlink_event = Foto_eliminada string | Error_eliminando_foto string

text \<open>
  \<^verbatim>\<open>[row.foto_frontal, row.foto_serial, row.foto_placa].forEach(fotoPath => { ... })\<close>,
  where \<open>throws\<close> says for which paths \<^verbatim>\<open>fs.unlinkSync\<close> throws (the file then stays).
\<close>

fun eliminar_fotos ::
  "(string \<Rightarrow> bool) \<Rightarrow> string option list \<Rightarrow> filesystem \<Rightarrow> filesystem \<times> unlink_event list" where
  "eliminar_fotos throws [] fs = (fs, [])"
| "eliminar_fotos throws (fotoPath # rest) fs =
     (if truthy (case fotoPath of None \<Rightarrow> JNull | Some p \<Rightarrow> JStr p) \<and> the fotoPath \<in> dom fs then
        (if throws (the fotoPath)
         then (case eliminar_fotos throws rest fs of
                 (fs', log) \<Rightarrow> (fs', Error_eliminando_foto (the fotoPath) # log))
         else (case eliminar_fotos throws rest (fs(the fotoPath := None)) of
                 (fs', log) \<Rightarrow> (fs', Foto_eliminada (the fotoPath) # log)))
      else eliminar_fotos throws rest fs)"

definition delete_computadores ::
  "(string \<Rightarrow> bool) \<Rightarrow> nat \<Rightarrow> database \<Rightarrow> filesystem
     \<Rightarrow> response \<times> database \<times> filesystem \<times> unlink_event list" where
  "delete_computadores throws i d fs =
     (let row = db_get_fotos i d in
      case db_run_delete i d of
        (changes, d') \<Rightarrow>
          if changes = 0 then (registro_no_encontrado, d', fs, [])
          else
            (case (case row of
                     Some (f, s, p) \<Rightarrow> eliminar_fotos throws [f, s, p] fs
                   | None \<Rightarrow> (fs, [])) of
               (fs', log) \<Rightarrow>
                 (Json 200 (JsObj [(''message'', JsStr ''Registro de soporte eliminado exitosamente'')]),
                  d', fs', log)))"

section \<open>\<^verbatim>\<open>GET /api/computadores\<close>\<close>

subsection \<open>The operator LIKE of SQLite\<close>

text \<open>
  The pattern is read character by character: \<^verbatim>\<open>%\<close> stands for any run of characters,
  \<^verbatim>\<open>_\<close> for one character, and any other character for itself, where the letters A to Z
  of ASCII equal their lower-case forms. A character is a byte, followed by its continuation
  bytes when the byte is \<open>0xC0\<close> or more. No escape character is declared by the queries
  of the server.
\<close>

definition ascii_lower :: "char \<Rightarrow> char" where
  "ascii_lower c =
     (let n = (of_char c :: nat) in if 65 \<le> n \<and> n \<le> 90 then char_of (n + 32) else c)"

definition is_continuation :: "char \<Rightarrow> bool" where
  "is_continuation c = (let n = (of_char c :: nat) in 128 \<le> n \<and> n < 192)"

fun utf8_tail :: "string \<Rightarrow> string" where
  "utf8_tail [] = []"
| "utf8_tail (c # cs) = (if 192 \<le> (of_char c :: nat) then dropWhile is_continuation cs else cs)"

function like :: "string \<Rightarrow> string \<Rightarrow> bool" where
  "like [] s = (s = [])"
| "like (p # ps) s =
     (if p = CHR ''%'' then like ps s \<or> (if s = [] then False else like (p # ps) (utf8_tail s))
      else if s = [] then False
      else if p = CHR ''_'' then like ps (utf8_tail s)
      else ascii_lower p = ascii_lower (hd s) \<and> like ps (tl s))"
  by pat_completeness auto
termination
proof (relation "measure (\<lambda>(p, s). length p + length s)")
  fix p :: char and ps s :: string
  assume "s \<noteq> []"
  then show "((p # ps, utf8_tail s), p # ps, s) \<in> measure (\<lambda>(p, s). length p + length s)"
    by (cases s) (auto simp: length_dropWhile_le le_imp_less_Suc)
  then show "((ps, utf8_tail s), p # ps, s) \<in> measure (\<lambda>(p, s). length p + length s)"
    by simp
next
  fix p :: char and ps s :: string
  assume "s \<noteq> []"
  then show "((ps, tl s), p # ps, s) \<in> measure (\<lambda>(p, s). length p + length s)"
    by (cases s) auto
qed auto

subsection \<open>The query and its reading by the store\<close>

datatype operador = Igual | Like

type_synonym condicion = "string \<times> operador"

fun sql_condicion :: "condicion \<Rightarrow> string" where
  "sql_condicion (col, Igual) = '' AND '' @ col @ '' = ?''"
| "sql_condicion (col, Like) = '' AND '' @ col @ '' LIKE ?''"

text \<open>The text of a SELECT over the table with the conjuncts \<open>conds\<close>, one parameter each.\<close>

definition select_sql :: "condicion list \<Rightarrow> string" where
  "select_sql conds =
     ''SELECT * FROM computadores WHERE 1=1'' @ concat (map sql_condicion conds) @
     '' ORDER BY fecha_revision DESC''"

text \<open>A template literal prints a value that is not a string by its name.\<close>

fun to_string :: "jsval \<Rightarrow> string" where
  "to_string JUndefined = ''undefined''"
| "to_string JNull = ''null''"
| "to_string (JStr s) = s"

text \<open>
  The text and the parameters as the handler builds them:
  \<^verbatim>\<open>if (estado) { query += ' AND estado = ?'; params.push(estado); }\<close>,
  \<^verbatim>\<open>if (responsable) { query += ' AND responsable LIKE ?'; params.push(`%${responsable}%`); }\<close>
  and so on.
\<close>

definition push_igual :: "string \<Rightarrow> jsval \<Rightarrow> string \<times> jsval list \<Rightarrow> string \<times> jsval list" where
  "push_igual sql v qp =
     (if truthy v then (fst qp @ sql, snd qp @ [v]) else qp)"

definition push_like :: "string \<Rightarrow> jsval \<Rightarrow> string \<times> jsval list \<Rightarrow> string \<times> jsval list" where
  "push_like sql v qp =
     (if truthy v then (fst qp @ sql, snd qp @ [JStr (''%'' @ to_string v @ ''%'')]) else qp)"

definition build_query :: "object \<Rightarrow> string \<times> jsval list" where
  "build_query q =
     (let qp = (''SELECT * FROM computadores WHERE 1=1'', []);
          qp = push_igual '' AND estado = ?'' (get_key q ''estado'') qp;
          qp = push_like '' AND responsable LIKE ?'' (get_key q ''responsable'') qp;
          qp = push_like '' AND equipo_id LIKE ?'' (get_key q ''equipo_id'') qp;
          qp = push_like '' AND serial_number LIKE ?'' (get_key q ''serial_number'') qp;
          qp = push_like '' AND revisor LIKE ?'' (get_key q ''revisor'') qp
      in (fst qp @ '' ORDER BY fecha_revision DESC'', snd qp))"

text \<open>The conjuncts that the store reads in that text: those of the keys with a truthy
  value, in the order of the handler.\<close>

definition where_conds :: "object \<Rightarrow> condicion list" where
  "where_conds q =
     map snd (filter (\<lambda>(k, c). truthy (get_key q k))
       [(''estado'', (''estado'', Igual)), (''responsable'', (''responsable'', Like)),
        (''equipo_id'', (''equipo_id'', Like)), (''serial_number'', (''serial_number'', Like)),
        (''revisor'', (''revisor'', Like))])"

fun columna :: "string \<Rightarrow> campos \<Rightarrow> string option" where
  "columna col c =
     (if col = ''estado'' then estado c
      else if col = ''responsable'' then responsable c
      else if col = ''equipo_id'' then equipo_id c
      else if col = ''serial_number'' then serial_number c
      else if col = ''revisor'' then revisor c
      else None)"

text \<open>One conjunct on one row. A comparison with NULL is not true.\<close>

fun cumple :: "condicion \<Rightarrow> jsval \<Rightarrow> computador \<Rightarrow> bool" where
  "cumple (col, Igual) v r =
     (case (columna col (campos r), sql_param v) of (Some x, Some y) \<Rightarrow> x = y | _ \<Rightarrow> False)"
| "cumple (col, Like) v r =
     (case (columna col (campos r), sql_param v) of (Some x, Some y) \<Rightarrow> like y x | _ \<Rightarrow> False)"

text \<open>\<^verbatim>\<open>ORDER BY fecha_revision DESC\<close>. The order of rows with the same timestamp is the
  store's choice.\<close>

definition order_by_fecha_revision_desc :: "computador list \<Rightarrow> computador list" where
  "order_by_fecha_revision_desc rs = rev (sort_key fecha_revision rs)"

definition db_all :: "condicion list \<Rightarrow> jsval list \<Rightarrow> database \<Rightarrow> computador list" where
  "db_all conds params d =
     order_by_fecha_revision_desc
       (filter (\<lambda>r. list_all (\<lambda>(c, v). cumple c v r) (zip conds params)) (tabla d))"

text \<open>A row as the JSON object of \<^verbatim>\<open>SELECT *\<close>; a timestamp is printed as its seconds.\<close>

definition row_json :: "computador \<Rightarrow> json" where
  "row_json r =
     (let c = campos r in
      JsObj [(''id'', JsNum (id_col r)),
             (''equipo_id'', nullable (equipo_id c)),
             (''serial_number'', nullable (serial_number c)),
             (''placa_ml'', nullable (placa_ml c)),
             (''latitud'', nullable_numeric (latitud c)),
             (''longitud'', nullable_numeric (longitud c)),
             (''direccion_automatica'', nullable (direccion_automatica c)),
             (''ubicacion_manual'', nullable (ubicacion_manual c)),
             (''responsable'', nullable (responsable c)),
             (''cargo'', nullable (cargo c)),
             (''estado'', nullable (estado c)),
             (''windows_update'', nullable (windows_update c)),
             (''foto_frontal'', nullable (foto_frontal c)),
             (''foto_serial'', nullable (foto_serial c)),
             (''foto_placa'', nullable (foto_placa c)),
             (''observaciones'', nullable (observaciones c)),
             (''problemas_detectados'', nullable (problemas_detectados c)),
             (''fecha_revision'', JsNum (fecha_revision r)),
             (''fecha_actualizacion'', JsNum (fecha_actualizacion r)),
             (''revisor'', nullable (revisor c))])"

text \<open>The rows that the handler sends, and the handler.\<close>

definition listed :: "object \<Rightarrow> database \<Rightarrow> computador list" where
  "listed q d = db_all (where_conds q) (snd (build_query q)) d"

definition get_computadores :: "request \<Rightarrow> database \<Rightarrow> response" where
  "get_computadores req d = Json 200 (JsArr (map row_json (listed (query req) d)))"

text \<open>The five keys that the handler takes from \<^verbatim>\<open>req.query\<close>.\<close>

definition filter_keys :: "string list" where
  "filter_keys = [''estado'', ''responsable'', ''equipo_id'', ''serial_number'', ''revisor'']"

text \<open>
  The filter in the words of the specification, to compare with \<open>listed\<close>: a record passes
  when its \<^verbatim>\<open>estado\<close> equals the value given for that key and each value given for
  \<^verbatim>\<open>responsable\<close>, \<^verbatim>\<open>equipo_id\<close>, \<^verbatim>\<open>serial_number\<close> and \<^verbatim>\<open>revisor\<close> occurs as a
  substring of the field.
\<close>

definition spec_filter :: "object \<Rightarrow> computador \<Rightarrow> bool" where
  "spec_filter q r \<longleftrightarrow>
     (case get_key q ''estado'' of
        JStr v \<Rightarrow> estado (campos r) = Some v
      | _ \<Rightarrow> True) \<and>
     list_all
       (\<lambda>k. case get_key q k of
               JStr v \<Rightarrow> (case columna k (campos r) of Some x \<Rightarrow> js_includes x v | None \<Rightarrow> False)
             | _ \<Rightarrow> True)
       [''responsable'', ''equipo_id'', ''serial_number'', ''revisor'']"

section \<open>\<^verbatim>\<open>GET /api/estadisticas\<close>\<close>

text \<open>
  The nine queries, each \<^verbatim>\<open>SELECT COUNT(*) as count FROM computadores\<close> with the WHERE
  clause given here as a condition on a row; \<open>now\<close> is the reading of the clock that
  \<^verbatim>\<open>DATE("now")\<close> takes, in seconds, and a day has 86400 of them.
\<close>

definition queries :: "(string \<times> (nat \<Rightarrow> computador \<Rightarrow> bool)) list" where
  "queries =
     [(''total'', \<lambda>now r. True),
      (''operativos'', \<lambda>now r. estado (campos r) = Some ''operativo''),
      (''mantenimiento'', \<lambda>now r. estado (campos r) = Some ''mantenimiento''),
      (''da'' @ n_tilde @ ''ados'', \<lambda>now r. estado (campos r) = Some (''da'' @ n_tilde @ ''ado'')),
      (''windows_si'', \<lambda>now r. windows_update (campos r) = Some ''si''),
      (''windows_no'', \<lambda>now r. windows_update (campos r) = Some ''no''),
      (''revisiones_hoy'', \<lambda>now r. fecha_revision r div 86400 = now div 86400),
      (''con_problemas'', \<lambda>now r. problemas_detectados (campos r) \<noteq> None \<and>
                                    problemas_detectados (campos r) \<noteq> Some []),
      (''con_ubicacion'', \<lambda>now r. latitud (campos r) \<noteq> None \<and> longitud (campos r) \<noteq> None)]"

text \<open>What the nine callbacks share: \<^verbatim>\<open>stats\<close>, \<^verbatim>\<open>completed\<close>, \<^verbatim>\<open>hasError\<close>, and the
  responses sent so far.\<close>

record estadisticas =
  stats :: "(string \<times> nat) list"
  completed :: nat
  hasError :: bool
  sent :: "response list"

text \<open>
  The callback of \<^verbatim>\<open>db.get(sql, [], (err, row) => ...)\<close> for the query \<open>key\<close>: the result
  is the error, or the row (its \<^verbatim>\<open>count\<close>) if there is one.
\<close>

definition callback :: "string \<Rightarrow> sqlite_error + nat option \<Rightarrow> estadisticas \<Rightarrow> estadisticas" where
  "callback key result a =
     (case result of
        Inl err \<Rightarrow>
          if \<not> hasError a
          then a\<lparr>hasError := True, sent := sent a @ [handleDatabaseError err]\<rparr>
          else a
      | Inr row \<Rightarrow>
          if \<not> hasError a then
            (let a' = a\<lparr>stats := AList.update key (case row of Some n \<Rightarrow> n | None \<Rightarrow> 0) (stats a),
                        completed := completed a + 1\<rparr>
             in if completed a' = length queries
                then a'\<lparr>sent := sent a' @ [Json 200 (JsObj (map (\<lambda>(k, n). (k, JsNum n)) (stats a')))]\<rparr>
                else a')
          else a)"

text \<open>The result of one query on the table: \<open>fails\<close> says which queries the store fails
  (by the key of the query), with which error.\<close>

definition db_get_count ::
  "(string \<Rightarrow> sqlite_error option) \<Rightarrow> nat \<Rightarrow> database \<Rightarrow> string \<times> (nat \<Rightarrow> computador \<Rightarrow> bool)
     \<Rightarrow> sqlite_error + nat option" where
  "db_get_count fails now d q =
     (case fails (fst q) of
        Some err \<Rightarrow> Inl err
      | None \<Rightarrow> Inr (Some (length (filter (snd q now) (tabla d)))))"

text \<open>
  The handler issues the nine queries; their callbacks run in the order \<open>order\<close> in which
  the store completes them (a reordering of \<open>queries\<close>). The result is what the callbacks
  leave, with every response sent.
\<close>

definition get_estadisticas ::
  "(string \<Rightarrow> sqlite_error option) \<Rightarrow> nat \<Rightarrow> (string \<times> (nat \<Rightarrow> computador \<Rightarrow> bool)) list
     \<Rightarrow> database \<Rightarrow> estadisticas" where
  "get_estadisticas fails now order d =
     fold (\<lambda>q. callback (fst q) (db_get_count fails now d q)) order
       \<lparr>stats = [], completed = 0, hasError = False, sent = []\<rparr>"

section \<open>\<^verbatim>\<open>GET /uploads/:filename\<close> and \<^verbatim>\<open>GET /api/image-info/:filename\<close>\<close>

subsection \<open>Paths\<close>







subsection \<open>The host\<close>




subsection \<open>A request to one of the two routes\<close>


subsection \<open>The module \<^verbatim>\<open>send\<close>\<close>




subsection \<open>\<^verbatim>\<open>app.use(express.static(path.join(__dirname)))\<close>\<close>


subsection \<open>The two handlers\<close>






section \<open>The server and its routes\<close>

text \<open>
  The globals \<^verbatim>\<open>db\<close> and \<^verbatim>\<open>dbInitialized\<close>; the file of the store,
  \<^verbatim>\<open>./soporte_computadores.db\<close> in the working directory, and the rollback journal that
  SQLite keeps beside it while it writes; and the other files of the host.
\<close>

record server =
  db :: "database option"
  dbInitialized :: bool
  db_archivo :: "archivo option"
  db_journal :: "archivo option"
  archivos :: filesystem




text \<open>The middleware \<^verbatim>\<open>checkDatabase\<close>: the response that ends the request, or none
  (\<^verbatim>\<open>next()\<close>).\<close>

definition checkDatabase :: "server \<Rightarrow> response option" where
  "checkDatabase srv =
     (if \<not> dbInitialized srv \<or> db srv = None
      then Some (Json 500 (JsObj [(''error'', JsStr ''Base de datos no disponible''),
                                  (''details'', JsStr ''La base de datos no se ha inicializado correctamente'')]))
      else None)"

text \<open>\<^verbatim>\<open>app.get('/api/computadores', checkDatabase, ...)\<close>\<close>

definition route_get_computadores :: "server \<Rightarrow> request \<Rightarrow> response" where
  "route_get_computadores srv req =
     (case checkDatabase srv of
        Some r \<Rightarrow> r
      | None \<Rightarrow> get_computadores req (the (db srv)))"






section \<open>Sequences of requests that write\<close>

text \<open>
  A request that can change the table, with what it reads of the outside world. Requests
  are served one after the other.
\<close>

datatype operation =
    Create entorno request
  | Update entorno nat request
  | Delete "string \<Rightarrow> bool" nat filesystem

fun apply_op :: "operation \<Rightarrow> database \<Rightarrow> response \<times> database" where
  "apply_op (Create env req) d = (case post_computadores env req d of (r, d', w) \<Rightarrow> (r, d'))"
| "apply_op (Update env i req) d = (case put_computadores env i req d of (r, d', w) \<Rightarrow> (r, d'))"
| "apply_op (Delete throws i fs) d =
     (case delete_computadores throws i d fs of (r, d', fs', log) \<Rightarrow> (r, d'))"

text \<open>The responses of a sequence of requests and the table after it.\<close>

fun run :: "operation list \<Rightarrow> database \<Rightarrow> response list \<times> database" where
  "run [] d = ([], d)"
| "run (op # ops) d =
     (case apply_op op d of (r, d') \<Rightarrow>
        (case run ops d' of (rs, d'') \<Rightarrow> (r # rs, d'')))"

text \<open>The records created (answered 201) and the records deleted (answered 200).\<close>

fun is_created :: "operation \<times> response \<Rightarrow> bool" where
  "is_created (Create env req, r) = (status r = 201)"
| "is_created (_, r) = False"

fun is_deleted :: "operation \<times> response \<Rightarrow> bool" where
  "is_deleted (Delete throws i fs, r) = (status r = 200)"
| "is_deleted (_, r) = False"

text \<open>The readings of \<^verbatim>\<open>CURRENT_TIMESTAMP\<close> that a sequence of requests takes, in order.\<close>

fun timestamps :: "operation list \<Rightarrow> nat list" where
  "timestamps [] = []"
| "timestamps (Create env req # ops) = CURRENT_TIMESTAMP env # timestamps ops"
| "timestamps (Update env i req # ops) = CURRENT_TIMESTAMP env # timestamps ops"
| "timestamps (Delete throws i fs # ops) = timestamps ops"

text \<open>
  What the schema keeps true of the table: the \<^verbatim>\<open>id\<close>s are distinct (PRIMARY KEY) and
  none is above the AUTOINCREMENT counter, and every \<^verbatim>\<open>estado\<close> is one of the three values
  of its CHECK constraint.
\<close>

definition table_ok :: "database \<Rightarrow> bool" where
  "table_ok d \<longleftrightarrow>
     distinct (map id_col (tabla d)) \<and>
     (\<forall>r\<in>set (tabla d). id_col r \<le> sqlite_sequence d) \<and>
     (\<forall>r\<in>set (tabla d). \<exists>e\<in>set estados. estado (campos r) = Some e)"

text \<open>No row was updated before it was created, nor after the time \<open>t\<close>.\<close>

definition times_ok :: "nat \<Rightarrow> database \<Rightarrow> bool" where
  "times_ok t d \<longleftrightarrow>
     (\<forall>r\<in>set (tabla d). fecha_revision r \<le> fecha_actualizacion r \<and> fecha_actualizacion r \<le> t)"

section \<open>Example values\<close>

definition entorno_at :: "nat \<Rightarrow> entorno" where
  "entorno_at t =
     \<lparr>CURRENT_TIMESTAMP = t, Date_now = (\<lambda>k. ''1700000000000''),
      writeFileSync_throws = (\<lambda>p. None), from_base64 = (\<lambda>s. s)\<rparr>"

definition body_pc :: "string \<Rightarrow> string \<Rightarrow> object" where
  "body_pc eq sn =
     [(''equipo_id'', JStr eq), (''serial_number'', JStr sn), (''responsable'', JStr ''Ana''),
      (''cargo'', JStr ''Analista''), (''estado'', JStr ''operativo''),
      (''windows_update'', JStr ''si'')]"

definition request_of :: "object \<Rightarrow> request" where
  "request_of b = \<lparr>body = b, query = [], files = []\<rparr>"

definition campos_pc :: "string \<Rightarrow> string \<Rightarrow> campos" where
  "campos_pc eq sn =
     \<lparr>equipo_id = Some eq, serial_number = Some sn, placa_ml = None, latitud = None,
      longitud = None, direccion_automatica = None, ubicacion_manual = None,
      responsable = Some ''Ana'', cargo = Some ''Analista'', estado = Some ''operativo'',
      windows_update = Some ''si'', foto_frontal = None, foto_serial = None, foto_placa = None,
      observaciones = None, problemas_detectados = None, revisor = None\<rparr>"

definition row_pc :: "nat \<Rightarrow> string \<Rightarrow> string \<Rightarrow> nat \<Rightarrow> nat \<Rightarrow> computador" where
  "row_pc i eq sn t u =
     \<lparr>id_col = i, campos = campos_pc eq sn, fecha_revision = t, fecha_actualizacion = u\<rparr>"













definition fs_fotos :: filesystem where
  "fs_fotos =
     [''uploads/a.jpg'' \<mapsto>
        \<lparr>size_bytes = 10, birthtime = 1, mtime = 1, isDirectory = False, contenido = ''a''\<rparr>,
      ''uploads/b.jpg'' \<mapsto>
        \<lparr>size_bytes = 20, birthtime = 2, mtime = 2, isDirectory = False, contenido = ''b''\<rparr>,
      ''uploads/c.jpg'' \<mapsto>
        \<lparr>size_bytes = 30, birthtime = 3, mtime = 3, isDirectory = False, contenido = ''c''\<rparr>]"

definition row_fotos :: computador where
  "row_fotos =
     \<lparr>id_col = 1,
      campos = (campos_pc ''PC-1'' ''SN'')
        \<lparr>foto_frontal := Some ''uploads/a.jpg'', foto_serial := Some ''uploads/b.jpg'',
         foto_placa := Some ''uploads/c.jpg''\<rparr>,
      fecha_revision = 5, fecha_actualizacion = 5\<rparr>"


definition ops_ejemplo :: "operation list" where
  "ops_ejemplo =
     [Create (entorno_at 5) (request_of (body_pc ''PC-1'' ''SN'')),
      Create (entorno_at 6) (request_of (body_pc ''PC-2'' ''SN'')),
      Update (entorno_at 8) 2 (request_of (body_pc ''PC-2'' ''SN9'')),
      Delete (\<lambda>p. False) 1 Map.empty]"

definition ops_reloj_atrasado :: "operation list" where
  "ops_reloj_atrasado =
     [Create (entorno_at 10) (request_of (body_pc ''PC-1'' ''SN'')),
      Update (entorno_at 5) 1 (request_of (body_pc ''PC-1'' ''SN2''))]"

definition actualizado :: response where
  "actualizado = Json 200 (JsObj [(''message'', JsStr ''Registro de soporte actualizado exitosamente'')])"

definition eliminado :: response where
  "eliminado = Json 200 (JsObj [(''message'', JsStr ''Registro de soporte eliminado exitosamente'')])"

definition creado :: "nat \<Rightarrow> string \<Rightarrow> string \<Rightarrow> response" where
  "creado i eq sn =
     Json 201 (JsObj [(''id'', JsNum i), (''equipo_id'', JsStr eq), (''serial_number'', JsStr sn),
                      (''message'', JsStr registro_creado)])"




section \<open>Properties\<close>

subsection \<open>Auxiliary facts\<close>

lemma split_comma_no_comma: "CHR '','' \<notin> set s \<Longrightarrow> split_comma s = [s]"
  by (induction s) auto

lemma base64_slot_no_comma:
  "\<not> truthy path \<Longrightarrow> s \<noteq> [] \<Longrightarrow> CHR '','' \<notin> set s \<Longrightarrow>
   base64_slot env k tag path (JStr s) = Inl buffer_from_undefined"
  by (simp add: base64_slot_def split_comma_no_comma)

lemma procesar_fotos_no_comma:
  assumes "(f, k) \<in> set photo_slots"
    and "\<not> truthy (uploaded req f)" and "get_key (body req) k = JStr s" and "s \<noteq> []" and "CHR '','' \<notin> set s"
  shows "\<exists>e w. procesar_fotos env tags req = (Inl e, w)"
  using assms
  by (cases tags) (auto simp: photo_slots_def procesar_fotos_def base64_slot_no_comma split: sum.splits prod.splits)

lemma all_required:
  "(\<forall>k\<in>set required_fields. truthy (get_key b k)) \<longleftrightarrow>
   \<not> (\<not> truthy (get_key b ''equipo_id'') \<or> \<not> truthy (get_key b ''serial_number'') \<or>
         \<not> truthy (get_key b ''responsable'') \<or> \<not> truthy (get_key b ''cargo'') \<or>
         \<not> truthy (get_key b ''estado'') \<or> \<not> truthy (get_key b ''windows_update''))"
  by (auto simp: required_fields_def)

lemma entorno_at_simps:
  "CURRENT_TIMESTAMP (entorno_at t) = t"
  "Date_now (entorno_at t) k = ''1700000000000''"
  "writeFileSync_throws (entorno_at t) p = None"
  "from_base64 (entorno_at t) x = x"
  by (simp_all add: entorno_at_def)

lemma request_of_simps:
  "body (request_of b) = b" "query (request_of b) = []" "files (request_of b) = []"
  by (simp_all add: request_of_def)









subsection \<open>C10: the image routes and the store\<close>




subsection \<open>C7: the required fields of a create request\<close>

text \<open>
  Claim C7, as amended. If one of the six required fields is absent, \<^verbatim>\<open>null\<close> or the
  empty string, the request is answered 400 with the six required names and the keys
  received, and the table is unchanged. If all six are non-empty strings and the photos are
  processed without an exception, the INSERT is issued with the parameters of the handler;
  when the store rejects it the answer is that of \<^verbatim>\<open>handleDatabaseError\<close> and the table
  is unchanged; when the store accepts it the new row is appended with the next \<^verbatim>\<open>id\<close>
  and both timestamps at the current time, and the answer is 201 with that \<^verbatim>\<open>id\<close> and
  the submitted \<^verbatim>\<open>equipo_id\<close> and \<^verbatim>\<open>serial_number\<close>.
\<close>

theorem create_required_fields:
  "((\<exists>k\<in>set required_fields. \<not> truthy (get_key (body req) k)) \<longrightarrow>
      post_computadores env req d =
        (Json 400 (JsObj [(''error'', JsStr ''Campos requeridos faltantes''),
                          (''required'', JsArr (map JsStr required_fields)),
                          (''received'', JsArr (map JsStr (Object_keys (body req))))]),
         d, [])) \<and>
   ((\<forall>k\<in>set required_fields. truthy (get_key (body req) k)) \<longrightarrow>
    procesar_fotos env post_tags req = (Inr paths, w) \<longrightarrow>
      (case db_run_insert (CURRENT_TIMESTAMP env) (insert_params (body req) paths) d of
         Inl err \<Rightarrow> post_computadores env req d = (handleDatabaseError err, d, w)
       | Inr (i, d') \<Rightarrow>
           i = sqlite_sequence d + 1 \<and>
           tabla d' = tabla d @
             [\<lparr>id_col = i, campos = insert_params (body req) paths,
               fecha_revision = CURRENT_TIMESTAMP env, fecha_actualizacion = CURRENT_TIMESTAMP env\<rparr>] \<and>
           post_computadores env req d =
             (Json 201 (JsObj [(''id'', JsNum i),
                               (''equipo_id'', JsStr (to_string (get_key (body req) ''equipo_id''))),
                               (''serial_number'', JsStr (to_string (get_key (body req) ''serial_number''))),
                               (''message'', JsStr registro_creado)]),
              d', w)))"
proof (intro conjI impI)
  assume "\<exists>k\<in>set required_fields. \<not> truthy (get_key (body req) k)"
  then show "post_computadores env req d =
        (Json 400 (JsObj [(''error'', JsStr ''Campos requeridos faltantes''),
                          (''required'', JsArr (map JsStr required_fields)),
                          (''received'', JsArr (map JsStr (Object_keys (body req))))]),
         d, [])"
  proof -
    assume "\<exists>k\<in>set required_fields. \<not> truthy (get_key (body req) k)"
    then have c: "\<not> truthy (get_key (body req) ''equipo_id'') \<or> \<not> truthy (get_key (body req) ''serial_number'') \<or>
         \<not> truthy (get_key (body req) ''responsable'') \<or> \<not> truthy (get_key (body req) ''cargo'') \<or>
         \<not> truthy (get_key (body req) ''estado'') \<or> \<not> truthy (get_key (body req) ''windows_update'')"
      using all_required [of "body req"] by blast
    show ?thesis
      by (simp only: post_computadores_def Let_def if_P [OF c] campos_faltantes_def)
  qed
next
  assume req: "\<forall>k\<in>set required_fields. truthy (get_key (body req) k)"
    and ph: "procesar_fotos env post_tags req = (Inr paths, w)"
  have t: "truthy (get_key (body req) ''equipo_id'')" "truthy (get_key (body req) ''serial_number'')"
    using req by (simp_all add: required_fields_def)
  have js: "js (get_key (body req) ''equipo_id'') = JsStr (to_string (get_key (body req) ''equipo_id''))"
     "js (get_key (body req) ''serial_number'') = JsStr (to_string (get_key (body req) ''serial_number''))"
    using t by (cases "get_key (body req) ''equipo_id''"; cases "get_key (body req) ''serial_number''"; simp)+
  show "case db_run_insert (CURRENT_TIMESTAMP env) (insert_params (body req) paths) d of
         Inl err \<Rightarrow> post_computadores env req d = (handleDatabaseError err, d, w)
       | Inr (i, d') \<Rightarrow>
           i = sqlite_sequence d + 1 \<and>
           tabla d' = tabla d @
             [\<lparr>id_col = i, campos = insert_params (body req) paths,
               fecha_revision = CURRENT_TIMESTAMP env, fecha_actualizacion = CURRENT_TIMESTAMP env\<rparr>] \<and>
           post_computadores env req d =
             (Json 201 (JsObj [(''id'', JsNum i),
                               (''equipo_id'', JsStr (to_string (get_key (body req) ''equipo_id''))),
                               (''serial_number'', JsStr (to_string (get_key (body req) ''serial_number''))),
                               (''message'', JsStr registro_creado)]),
              d', w)"
  proof -
    have c: "\<not> (\<not> truthy (get_key (body req) ''equipo_id'') \<or> \<not> truthy (get_key (body req) ''serial_number'') \<or>
         \<not> truthy (get_key (body req) ''responsable'') \<or> \<not> truthy (get_key (body req) ''cargo'') \<or>
         \<not> truthy (get_key (body req) ''estado'') \<or> \<not> truthy (get_key (body req) ''windows_update''))"
      using all_required [of "body req"] req by blast
    have p: "post_computadores env req d =
       (case db_run_insert (CURRENT_TIMESTAMP env) (insert_params (body req) paths) d of
               Inl err \<Rightarrow> (handleDatabaseError err, d, w)
             | Inr (lastID, d') \<Rightarrow>
                 (Json 201 (JsObj [(''id'', JsNum lastID),
                                   (''equipo_id'', js (get_key (body req) ''equipo_id'')),
                                   (''serial_number'', js (get_key (body req) ''serial_number'')),
                                   (''message'', JsStr registro_creado)]),
                  d', w))"
      by (simp only: post_computadores_def Let_def if_not_P [OF c] ph prod.case sum.case)
    show ?thesis
      unfolding p using js
      by (auto simp: db_run_insert_def Let_def split: sum.splits option.splits)
  qed
qed


theorem create_required_fields_witness:
  "post_computadores (entorno_at 5) (request_of [(''equipo_id'', JStr ''PC-1'')]) empty_database =
     (Json 400 (JsObj [(''error'', JsStr ''Campos requeridos faltantes''),
                       (''required'', JsArr (map JsStr required_fields)),
                       (''received'', JsArr [JsStr ''equipo_id''])]),
      empty_database, []) \<and>
   post_computadores (entorno_at 5) (request_of (body_pc ''PC-1'' ''SN'')) empty_database =
     (Json 201 (JsObj [(''id'', JsNum 1), (''equipo_id'', JsStr ''PC-1''),
                       (''serial_number'', JsStr ''SN''), (''message'', JsStr registro_creado)]),
      \<lparr>tabla = [row_pc 1 ''PC-1'' ''SN'' 5 5], sqlite_sequence = 1\<rparr>, [])"
proof
  have missing: "\<exists>k\<in>set required_fields.
                   \<not> truthy (get_key (body (request_of [(''equipo_id'', JStr ''PC-1'')])) k)"
    by (simp add: required_fields_def request_of_simps get_key_def)
  show "post_computadores (entorno_at 5) (request_of [(''equipo_id'', JStr ''PC-1'')]) empty_database =
     (Json 400 (JsObj [(''error'', JsStr ''Campos requeridos faltantes''),
                       (''required'', JsArr (map JsStr required_fields)),
                       (''received'', JsArr [JsStr ''equipo_id''])]),
      empty_database, [])"
    using create_required_fields
            [of "request_of [(''equipo_id'', JStr ''PC-1'')]" "entorno_at 5" empty_database,
             THEN conjunct1, THEN mp, OF missing]
    by (simp add: request_of_simps Object_keys_def)
next
  have present: "\<forall>k\<in>set required_fields.
                   truthy (get_key (body (request_of (body_pc ''PC-1'' ''SN''))) k)"
    by (simp add: required_fields_def request_of_simps get_key_def body_pc_def)
  have ph: "procesar_fotos (entorno_at 5) post_tags (request_of (body_pc ''PC-1'' ''SN'')) =
              (Inr (JNull, JNull, JNull), [])"
    by (simp add: procesar_fotos_def post_tags_def base64_slot_def uploaded_def request_of_simps
        body_pc_def get_key_def)
  have ins: "db_run_insert 5 (insert_params (body_pc ''PC-1'' ''SN'') (JNull, JNull, JNull)) empty_database =
               Inr (1, \<lparr>tabla = [row_pc 1 ''PC-1'' ''SN'' 5 5], sqlite_sequence = 1\<rparr>)"
    by (simp add: db_run_insert_def insert_params_def body_pc_def get_key_def or_null_def
        constraint_error_def not_null_columns_def estados_def windows_updates_def
        empty_database_def row_pc_def campos_pc_def)
  show "post_computadores (entorno_at 5) (request_of (body_pc ''PC-1'' ''SN'')) empty_database =
     (Json 201 (JsObj [(''id'', JsNum 1), (''equipo_id'', JsStr ''PC-1''),
                       (''serial_number'', JsStr ''SN''), (''message'', JsStr registro_creado)]),
      \<lparr>tabla = [row_pc 1 ''PC-1'' ''SN'' 5 5], sqlite_sequence = 1\<rparr>, [])"
    using create_required_fields
            [of "request_of (body_pc ''PC-1'' ''SN'')" "entorno_at 5" empty_database
                "(JNull, JNull, JNull)" "[]", THEN conjunct2, THEN mp, OF present, THEN mp, OF ph]
    by (simp add: request_of_simps entorno_at_simps ins)
       (simp add: body_pc_def get_key_def)
qed

text \<open>
  Claim C7 as stated fails: a request that carries all six required keys, with the empty
  string for \<^verbatim>\<open>equipo_id\<close>, is answered 400 and no INSERT is issued.
\<close>

theorem create_present_but_empty_counterexample:
  "set required_fields \<subseteq> set (Object_keys (body_pc [] ''SN'')) \<and>
   post_computadores (entorno_at 5) (request_of (body_pc [] ''SN'')) empty_database =
     (Json 400 (JsObj [(''error'', JsStr ''Campos requeridos faltantes''),
                       (''required'', JsArr (map JsStr required_fields)),
                       (''received'', JsArr (map JsStr required_fields))]),
      empty_database, [])"
  by (simp add: post_computadores_def campos_faltantes_def request_of_def body_pc_def
      get_key_def Object_keys_def required_fields_def)

subsection \<open>C9: a base64 photo without a comma\<close>

text \<open>
  Claim C9, as amended. Take a slot for which no file was uploaded and whose base64 field is
  a non-empty string without a comma. An update request is then answered 400 with
  \<^verbatim>\<open>Error procesando las fotos\<close> and the table is unchanged; so is a create request whose
  six required fields are non-empty (one that lacks a required field is answered 400 by
  the validation instead).
\<close>

theorem base64_without_comma:
  assumes "(f, k) \<in> set photo_slots"
    and "\<not> truthy (uploaded req f)"
    and "get_key (body req) k = JStr s"
    and "s \<noteq> []"
    and "CHR '','' \<notin> set s"
  shows "((\<forall>key\<in>set required_fields. truthy (get_key (body req) key)) \<longrightarrow>
            (\<exists>details w. post_computadores env req d =
               (Json 400 (JsObj [(''error'', JsStr ''Error procesando las fotos''),
                                 (''details'', JsStr details)]), d, w))) \<and>
         (\<exists>details w. put_computadores env i req d =
               (Json 400 (JsObj [(''error'', JsStr ''Error procesando las fotos''),
                                 (''details'', JsStr details)]), d, w))"
proof (intro conjI impI)
  assume req: "\<forall>key\<in>set required_fields. truthy (get_key (body req) key)"
  obtain e w where ph: "procesar_fotos env post_tags req = (Inl e, w)"
    using procesar_fotos_no_comma [OF assms] by blast
  have c: "\<not> (\<not> truthy (get_key (body req) ''equipo_id'') \<or> \<not> truthy (get_key (body req) ''serial_number'') \<or>
         \<not> truthy (get_key (body req) ''responsable'') \<or> \<not> truthy (get_key (body req) ''cargo'') \<or>
         \<not> truthy (get_key (body req) ''estado'') \<or> \<not> truthy (get_key (body req) ''windows_update''))"
    using all_required [of "body req"] req by blast
  have "post_computadores env req d = (error_procesando_fotos e, d, w)"
    by (simp only: post_computadores_def Let_def if_not_P [OF c] ph prod.case sum.case)
  then show "\<exists>details w. post_computadores env req d =
               (Json 400 (JsObj [(''error'', JsStr ''Error procesando las fotos''),
                                 (''details'', JsStr details)]), d, w)"
    by (simp add: error_procesando_fotos_def)
next
  obtain e w where ph: "procesar_fotos env put_tags req = (Inl e, w)"
    using procesar_fotos_no_comma [OF assms] by blast
  have "put_computadores env i req d = (error_procesando_fotos e, d, w)"
    by (simp only: put_computadores_def Let_def ph prod.case sum.case)
  then show "\<exists>details w. put_computadores env i req d =
               (Json 400 (JsObj [(''error'', JsStr ''Error procesando las fotos''),
                                 (''details'', JsStr details)]), d, w)"
    by (simp add: error_procesando_fotos_def)
qed

theorem base64_without_comma_witness:
  "(\<exists>details w.
      post_computadores (entorno_at 5)
        (request_of (body_pc ''PC-1'' ''SN'' @ [(''foto_serial_base64'', JStr ''abc'')])) empty_database =
      (Json 400 (JsObj [(''error'', JsStr ''Error procesando las fotos''),
                        (''details'', JsStr details)]), empty_database, w)) \<and>
   (\<exists>details w.
      put_computadores (entorno_at 5) 1
        (request_of (body_pc ''PC-1'' ''SN'' @ [(''foto_serial_base64'', JStr ''abc'')])) empty_database =
      (Json 400 (JsObj [(''error'', JsStr ''Error procesando las fotos''),
                        (''details'', JsStr details)]), empty_database, w))"
  using base64_without_comma
    [of "''foto_serial''" "''foto_serial_base64''"
        "request_of (body_pc ''PC-1'' ''SN'' @ [(''foto_serial_base64'', JStr ''abc'')])"
        "''abc''" "entorno_at 5" empty_database 1]
  by (simp add: photo_slots_def uploaded_def request_of_def body_pc_def get_key_def
      required_fields_def)

text \<open>
  Claim C9 as stated fails: a create request with a file uploaded for the front photo and
  the base64 field \<^verbatim>\<open>abc\<close> for the same slot is answered 201 and its row is inserted,
  since the base64 field of a slot that has a file is not read.
\<close>

theorem base64_ignored_beside_upload_counterexample:
  "get_key (body_pc ''PC-1'' ''SN'' @ [(''foto_frontal_base64'', JStr ''abc'')]) ''foto_frontal_base64'' =
     JStr ''abc'' \<and>
   CHR '','' \<notin> set ''abc'' \<and>
   post_computadores (entorno_at 5)
     \<lparr>body = body_pc ''PC-1'' ''SN'' @ [(''foto_frontal_base64'', JStr ''abc'')], query = [],
      files = [(''foto_frontal'', ''uploads/1700000000000-frente.jpg'')]\<rparr> empty_database =
     (Json 201 (JsObj [(''id'', JsNum 1), (''equipo_id'', JsStr ''PC-1''),
                       (''serial_number'', JsStr ''SN''), (''message'', JsStr registro_creado)]),
      \<lparr>tabla = [\<lparr>id_col = 1,
                  campos = (campos_pc ''PC-1'' ''SN'')
                    \<lparr>foto_frontal := Some ''uploads/1700000000000-frente.jpg''\<rparr>,
                  fecha_revision = 5, fecha_actualizacion = 5\<rparr>],
        sqlite_sequence = 1\<rparr>, [])"
  by (simp add: post_computadores_def procesar_fotos_def post_tags_def base64_slot_def
      uploaded_def body_pc_def get_key_def db_run_insert_def insert_params_def or_null_def
      constraint_error_def not_null_columns_def estados_def windows_updates_def
      empty_database_def campos_pc_def entorno_at_def)




lemma status_handle_constraint: "status (handleDatabaseError (constraint_failed what)) = 400"
  by (simp add: handleDatabaseError_def constraint_failed_def Let_def)

lemma status_handle: "status (handleDatabaseError e) = 400 \<or> status (handleDatabaseError e) = 500"
  by (simp add: handleDatabaseError_def Let_def)

lemma constraint_error_is_constraint:
  "constraint_error others c = Some e \<Longrightarrow> \<exists>what. e = constraint_failed what"
  by (auto simp: constraint_error_def split: list.splits if_splits prod.splits)



lemma post_computadores_valid:
  assumes fields: "\<forall>k\<in>set required_fields. truthy (get_key (body req) k)"
    and photos: "procesar_fotos env post_tags req = (Inr paths, w)"
  shows "post_computadores env req d =
       (case db_run_insert (CURRENT_TIMESTAMP env) (insert_params (body req) paths) d of
               Inl err \<Rightarrow> (handleDatabaseError err, d, w)
             | Inr (lastID, d') \<Rightarrow>
                 (Json 201 (JsObj [(''id'', JsNum lastID),
                                   (''equipo_id'', js (get_key (body req) ''equipo_id'')),
                                   (''serial_number'', js (get_key (body req) ''serial_number'')),
                                   (''message'', JsStr registro_creado)]),
                  d', w))"
proof -
  have c: "\<not> (\<not> truthy (get_key (body req) ''equipo_id'') \<or> \<not> truthy (get_key (body req) ''serial_number'') \<or>
         \<not> truthy (get_key (body req) ''responsable'') \<or> \<not> truthy (get_key (body req) ''cargo'') \<or>
         \<not> truthy (get_key (body req) ''estado'') \<or> \<not> truthy (get_key (body req) ''windows_update''))"
    using all_required [of "body req"] fields by blast
  show ?thesis
    by (simp only: post_computadores_def Let_def if_not_P [OF c] photos prod.case sum.case)
qed

lemma post_computadores_201:
  assumes "post_computadores env req d = (r, d', w)" and "status r = 201"
  shows "\<exists>paths. (\<forall>k\<in>set required_fields. truthy (get_key (body req) k)) \<and>
           constraint_error (tabla d) (insert_params (body req) paths) = None \<and>
           d' = \<lparr>tabla = tabla d @
                   [\<lparr>id_col = sqlite_sequence d + 1, campos = insert_params (body req) paths,
                     fecha_revision = CURRENT_TIMESTAMP env,
                     fecha_actualizacion = CURRENT_TIMESTAMP env\<rparr>],
                 sqlite_sequence = sqlite_sequence d + 1\<rparr>"
proof (cases "\<forall>k\<in>set required_fields. truthy (get_key (body req) k)")
  case False
  then have "post_computadores env req d = (campos_faltantes (body req), d, [])"
    using all_required [of "body req"]
    by (simp only: post_computadores_def Let_def) (auto simp: required_fields_def)
  with assms show ?thesis by (auto simp: campos_faltantes_def)
next
  case True
  show ?thesis
  proof (cases "procesar_fotos env post_tags req")
    case (Pair res written)
    show ?thesis
    proof (cases res)
      case (Inl e)
      have c: "\<not> (\<not> truthy (get_key (body req) ''equipo_id'') \<or> \<not> truthy (get_key (body req) ''serial_number'') \<or>
         \<not> truthy (get_key (body req) ''responsable'') \<or> \<not> truthy (get_key (body req) ''cargo'') \<or>
         \<not> truthy (get_key (body req) ''estado'') \<or> \<not> truthy (get_key (body req) ''windows_update''))"
        using all_required [of "body req"] True by blast
      have "post_computadores env req d = (error_procesando_fotos e, d, written)"
        using Pair Inl
        by (simp only: post_computadores_def Let_def if_not_P [OF c] prod.case sum.case)
      with assms show ?thesis by (auto simp: error_procesando_fotos_def)
    next
      case (Inr paths)
      note p = post_computadores_valid [OF True, of env paths written d, unfolded Pair Inr, OF refl]
      show ?thesis
      proof (cases "constraint_error (tabla d) (insert_params (body req) paths)")
        case None
        then show ?thesis using p assms True
          by (intro exI [of _ paths]) (auto simp: db_run_insert_def Let_def)
      next
        case (Some e)
        then have "r = handleDatabaseError e" using p assms by (auto simp: db_run_insert_def)
        with assms status_handle [of e] show ?thesis by auto
      qed
    qed
  qed
qed

subsection \<open>C2: a second record with the same asset tag\<close>


lemma body_pc_required:
  "e \<noteq> [] \<Longrightarrow> s \<noteq> [] \<Longrightarrow>
   \<forall>k\<in>set required_fields. truthy (get_key (body (request_of (body_pc e s))) k)"
  by (simp add: required_fields_def request_of_simps get_key_def body_pc_def)

lemma body_pc_fotos:
  "procesar_fotos env tags (request_of (body_pc e s)) = (Inr (JNull, JNull, JNull), [])"
  by (cases tags)
     (simp add: procesar_fotos_def base64_slot_def uploaded_def request_of_simps
        body_pc_def get_key_def)

lemma insert_params_body_pc:
  "e \<noteq> [] \<Longrightarrow> s \<noteq> [] \<Longrightarrow> insert_params (body_pc e s) (JNull, JNull, JNull) = campos_pc e s"
  by (simp add: insert_params_def body_pc_def get_key_def or_null_def campos_pc_def)




lemma update_set_simps:
  "id_col (update_set now c r) = id_col r"
  "fecha_revision (update_set now c r) = fecha_revision r"
  "fecha_actualizacion (update_set now c r) = now"
  "foto_frontal (campos (update_set now c r)) = coalesce (foto_frontal c) (foto_frontal (campos r))"
  "foto_serial (campos (update_set now c r)) = coalesce (foto_serial c) (foto_serial (campos r))"
  "foto_placa (campos (update_set now c r)) = coalesce (foto_placa c) (foto_placa (campos r))"
  "equipo_id (campos (update_set now c r)) = equipo_id c"
  "serial_number (campos (update_set now c r)) = serial_number c"
  "placa_ml (campos (update_set now c r)) = placa_ml c"
  "latitud (campos (update_set now c r)) = latitud c"
  "longitud (campos (update_set now c r)) = longitud c"
  "direccion_automatica (campos (update_set now c r)) = direccion_automatica c"
  "ubicacion_manual (campos (update_set now c r)) = ubicacion_manual c"
  "responsable (campos (update_set now c r)) = responsable c"
  "cargo (campos (update_set now c r)) = cargo c"
  "estado (campos (update_set now c r)) = estado c"
  "windows_update (campos (update_set now c r)) = windows_update c"
  "observaciones (campos (update_set now c r)) = observaciones c"
  "problemas_detectados (campos (update_set now c r)) = problemas_detectados c"
  "revisor (campos (update_set now c r)) = revisor c"
  by (simp_all add: update_set_def)

lemma filter_id_empty: "(filter (\<lambda>x. id_col x = i) rs = []) = (\<forall>x\<in>set rs. id_col x \<noteq> i)"
  by (auto simp: filter_empty_conv)

lemma db_update_absent:
  assumes "\<forall>x\<in>set (tabla d). id_col x \<noteq> i"
  shows "db_run_update now c i d = Inr (0, d)"
proof -
  have "filter (\<lambda>x. id_col x = i) (tabla d) = []"
    using assms by (simp add: filter_id_empty)
  then show ?thesis
    unfolding db_run_update_def by (simp only: list.case)
qed

lemma db_update_present:
  "filter (\<lambda>x. id_col x = i) (tabla d) = r # rest \<Longrightarrow>
   db_run_update now c i d =
     (case constraint_error (filter (\<lambda>x. id_col x \<noteq> i) (tabla d)) (campos (update_set now c r)) of
        Some e \<Rightarrow> Inl e
      | None \<Rightarrow> Inr (1, d\<lparr>tabla := map (\<lambda>x. if id_col x = i then update_set now c x else x) (tabla d)\<rparr>))"
  unfolding db_run_update_def by (simp only: list.case)

lemma put_computadores_fotos:
  "procesar_fotos env put_tags req = (Inr paths, w) \<Longrightarrow>
   put_computadores env i req d =
     (case db_run_update (CURRENT_TIMESTAMP env) (update_params (body req) paths) i d of
             Inl err \<Rightarrow> (handleDatabaseError err, d, w)
           | Inr (changes, d') \<Rightarrow>
               if changes = 0 then (registro_no_encontrado, d', w)
               else (Json 200 (JsObj [(''message'', JsStr ''Registro de soporte actualizado exitosamente'')]),
                     d', w))"
  by (simp add: put_computadores_def)

lemma base64_slot_untouched:
  "\<not> truthy b64 \<Longrightarrow> base64_slot env k tag path b64 = Inr (path, [])"
  by (simp add: base64_slot_def)

lemma procesar_fotos_kept:
  assumes "procesar_fotos env tags req = (Inr (p1, p2, p3), w)"
  shows "(map_of (files req) ''foto_frontal'' = None \<and> \<not> truthy (get_key (body req) ''foto_frontal_base64'') \<longrightarrow> p1 = JNull) \<and>
         (map_of (files req) ''foto_serial'' = None \<and> \<not> truthy (get_key (body req) ''foto_serial_base64'') \<longrightarrow> p2 = JNull) \<and>
         (map_of (files req) ''foto_placa'' = None \<and> \<not> truthy (get_key (body req) ''foto_placa_base64'') \<longrightarrow> p3 = JNull)"
proof -
  obtain t1 t2 t3 where tags: "tags = (t1, t2, t3)" by (cases tags) auto
  have u: "map_of (files req) f = None \<Longrightarrow> uploaded req f = JNull" for f
    by (simp add: uploaded_def)
  from assms show ?thesis
    unfolding procesar_fotos_def tags prod.case
    by (auto simp: base64_slot_untouched u split: sum.splits)
qed



lemma handle_constraint_400:
  "constraint_error others c = Some e \<Longrightarrow> status (handleDatabaseError e) = 400"
  using constraint_error_is_constraint status_handle_constraint by metis

lemma eliminar_fotos_Cons:
  "eliminar_fotos throws (p # ps) fs =
     (if truthy (case p of None \<Rightarrow> JNull | Some q \<Rightarrow> JStr q) \<and> the p \<in> dom fs then
        (if throws (the p)
         then (fst (eliminar_fotos throws ps fs),
               Error_eliminando_foto (the p) # snd (eliminar_fotos throws ps fs))
         else (fst (eliminar_fotos throws ps (fs(the p := None))),
               Foto_eliminada (the p) # snd (eliminar_fotos throws ps (fs(the p := None)))))
      else eliminar_fotos throws ps fs)"
  by (simp split: prod.splits)

lemma eliminar_fotos_dom: "dom (fst (eliminar_fotos throws ps fs)) \<subseteq> dom fs"
proof (induction ps arbitrary: fs)
  case Nil
  then show ?case by simp
next
  case (Cons p ps)
  have "dom (fst (eliminar_fotos throws ps (fs(the p := None)))) \<subseteq> dom fs"
    by (rule subset_trans [OF Cons.IH]) (auto split: if_splits)
  with Cons.IH [of fs] show ?case
    by (simp add: eliminar_fotos_Cons del: eliminar_fotos.simps)
qed

lemma eliminar_fotos_stays:
  "throws path \<Longrightarrow> path \<in> dom fs \<Longrightarrow> path \<in> dom (fst (eliminar_fotos throws ps fs))"
proof (induction ps arbitrary: fs)
  case Nil
  then show ?case by simp
next
  case (Cons p ps)
  note ih1 = Cons.IH [OF Cons.prems]
  show ?case
  proof (cases "truthy (case p of None \<Rightarrow> JNull | Some q \<Rightarrow> JStr q) \<and> the p \<in> dom fs")
    case False
    with ih1 show ?thesis by (auto simp: eliminar_fotos_Cons simp del: eliminar_fotos.simps)
  next
    case go: True
    show ?thesis
    proof (cases "throws (the p)")
      case True
      with go ih1 show ?thesis by (simp add: eliminar_fotos_Cons del: eliminar_fotos.simps)
    next
      case False
      with Cons.prems(1) have "the p \<noteq> path" by auto
      then have "path \<in> dom (fs(the p := None))" using Cons.prems(2) by auto
      note ih2 = Cons.IH [OF Cons.prems(1) this]
      have "eliminar_fotos throws (p # ps) fs =
              (fst (eliminar_fotos throws ps (fs(the p := None))),
               Foto_eliminada (the p) # snd (eliminar_fotos throws ps (fs(the p := None))))"
        using go False by (simp add: eliminar_fotos_Cons del: eliminar_fotos.simps)
      then show ?thesis using ih2 by (simp only: fst_conv)
    qed
  qed
qed

lemma eliminar_fotos_log:
  assumes "Some path \<in> set ps" and "path \<noteq> []" and "path \<in> dom fs"
  shows "if throws path
         then Error_eliminando_foto path \<in> set (snd (eliminar_fotos throws ps fs)) \<and>
              path \<in> dom (fst (eliminar_fotos throws ps fs))
         else Foto_eliminada path \<in> set (snd (eliminar_fotos throws ps fs)) \<and>
              path \<notin> dom (fst (eliminar_fotos throws ps fs))"
  using assms
proof (induction ps arbitrary: fs)
  case Nil
  then show ?case by simp
next
  case (Cons p ps)
  show ?case
  proof (cases "p = Some path")
    case True
    have go: "truthy (case p of None \<Rightarrow> JNull | Some q \<Rightarrow> JStr q) \<and> the p \<in> dom fs"
      using True Cons.prems(2,3) by simp
    have p: "the p = path" using True by simp
    show ?thesis
    proof (cases "throws path")
      case t: True
      have "path \<in> dom (fst (eliminar_fotos throws ps fs))"
        using eliminar_fotos_stays [of throws path fs ps] t Cons.prems(3) by simp
      with t go p show ?thesis
        by (simp add: eliminar_fotos_Cons del: eliminar_fotos.simps)
    next
      case f: False
      have "path \<notin> dom (fst (eliminar_fotos throws ps (fs(path := None))))"
        using eliminar_fotos_dom [of throws ps "fs(path := None)"] by auto
      with f go p show ?thesis
        by (simp add: eliminar_fotos_Cons del: eliminar_fotos.simps)
    qed
  next
    case False
    then have mem: "Some path \<in> set ps" using Cons.prems by simp
    note ih1 = Cons.IH [OF mem Cons.prems(2,3)]
    show ?thesis
    proof (cases "truthy (case p of None \<Rightarrow> JNull | Some q \<Rightarrow> JStr q) \<and> the p \<in> dom fs")
      case skip: False
      with ih1 show ?thesis by (auto simp: eliminar_fotos_Cons simp del: eliminar_fotos.simps)
    next
      case go: True
      then have neq: "the p \<noteq> path" using False by (cases p) auto
      show ?thesis
      proof (cases "throws (the p)")
        case True
        with go ih1 neq show ?thesis
          by (simp add: eliminar_fotos_Cons del: eliminar_fotos.simps)
      next
        case nt: False
        have "path \<in> dom (fs(the p := None))" using neq Cons.prems(3) by auto
        note ih2 = Cons.IH [OF mem Cons.prems(2) this]
        have e: "eliminar_fotos throws (p # ps) fs =
                (fst (eliminar_fotos throws ps (fs(the p := None))),
                 Foto_eliminada (the p) # snd (eliminar_fotos throws ps (fs(the p := None))))"
          using go nt by (simp add: eliminar_fotos_Cons del: eliminar_fotos.simps)
        show ?thesis
        proof (cases "throws path")
          case True
          with ih2 show ?thesis unfolding e by (simp only: if_True fst_conv snd_conv) simp
        next
          case False
          with ih2 show ?thesis unfolding e by (simp only: if_False fst_conv snd_conv) simp
        qed
      qed
    qed
  qed
qed

lemma db_get_fotos_one:
  "filter (\<lambda>x. id_col x = i) (tabla d) = [r] \<Longrightarrow>
   db_get_fotos i d = Some (foto_frontal (campos r), foto_serial (campos r), foto_placa (campos r))"
  by (simp add: db_get_fotos_def)

subsection \<open>C6: deleting a record and its photos\<close>

text \<open>
  Claim C6. When no row has the identity, the request is answered 404 with
  \<^verbatim>\<open>{error: 'Registro no encontrado'}\<close> and neither the table nor a file changes.
  When one row has it, the handler reads its three photo paths, deletes the row, and goes through the three paths: for each stored path that is not NULL
  and names an existing file, \<^verbatim>\<open>fs.unlinkSync\<close> is called, whatever happened to the paths
  before it. If the call throws, the exception is logged and the file stays; if not, the
  file is gone. The answer is 200 in every case.
\<close>

theorem delete_best_effort:
  "((\<forall>x\<in>set (tabla d). id_col x \<noteq> i) \<longrightarrow>
      delete_computadores throws i d fs =
        (Json 404 (JsObj [(''error'', JsStr ''Registro no encontrado'')]), d, fs, [])) \<and>
   (filter (\<lambda>x. id_col x = i) (tabla d) = [r] \<longrightarrow>
      (\<exists>fs' log.
         delete_computadores throws i d fs =
           (Json 200 (JsObj [(''message'', JsStr ''Registro de soporte eliminado exitosamente'')]),
            d\<lparr>tabla := filter (\<lambda>x. id_col x \<noteq> i) (tabla d)\<rparr>, fs', log) \<and>
         r \<notin> set (filter (\<lambda>x. id_col x \<noteq> i) (tabla d)) \<and>
         (\<forall>path. Some path \<in> {foto_frontal (campos r), foto_serial (campos r), foto_placa (campos r)} \<and>
                 path \<noteq> [] \<and> path \<in> dom fs \<longrightarrow>
            (if throws path
             then Error_eliminando_foto path \<in> set log \<and> path \<in> dom fs'
             else Foto_eliminada path \<in> set log \<and> path \<notin> dom fs'))))"
proof (intro conjI impI)
  assume a: "\<forall>x\<in>set (tabla d). id_col x \<noteq> i"
  then have f: "filter (\<lambda>x. id_col x = i) (tabla d) = []" by (simp add: filter_id_empty)
  have g: "filter (\<lambda>x. id_col x \<noteq> i) (tabla d) = tabla d" using a by simp
  show "delete_computadores throws i d fs =
        (Json 404 (JsObj [(''error'', JsStr ''Registro no encontrado'')]), d, fs, [])"
    by (simp add: delete_computadores_def db_run_delete_def registro_no_encontrado_def f g)
next
  assume f: "filter (\<lambda>x. id_col x = i) (tabla d) = [r]"
  let ?ps = "[foto_frontal (campos r), foto_serial (campos r), foto_placa (campos r)]"
  let ?fs' = "fst (eliminar_fotos throws ?ps fs)"
  let ?log = "snd (eliminar_fotos throws ?ps fs)"
  have del: "delete_computadores throws i d fs =
           (Json 200 (JsObj [(''message'', JsStr ''Registro de soporte eliminado exitosamente'')]),
            d\<lparr>tabla := filter (\<lambda>x. id_col x \<noteq> i) (tabla d)\<rparr>, ?fs', ?log)"
    by (simp add: delete_computadores_def db_run_delete_def f db_get_fotos_one [OF f]
        split: prod.splits del: eliminar_fotos.simps)
  have "r \<in> set (filter (\<lambda>x. id_col x = i) (tabla d))" using f by simp
  then have gone: "r \<notin> set (filter (\<lambda>x. id_col x \<noteq> i) (tabla d))" by simp
  have log: "if throws path
             then Error_eliminando_foto path \<in> set ?log \<and> path \<in> dom ?fs'
             else Foto_eliminada path \<in> set ?log \<and> path \<notin> dom ?fs'"
    if "Some path \<in> {foto_frontal (campos r), foto_serial (campos r), foto_placa (campos r)} \<and>
        path \<noteq> [] \<and> path \<in> dom fs" for path
    using that eliminar_fotos_log [of path ?ps fs throws] by simp
  show "\<exists>fs' log.
         delete_computadores throws i d fs =
           (Json 200 (JsObj [(''message'', JsStr ''Registro de soporte eliminado exitosamente'')]),
            d\<lparr>tabla := filter (\<lambda>x. id_col x \<noteq> i) (tabla d)\<rparr>, fs', log) \<and>
         r \<notin> set (filter (\<lambda>x. id_col x \<noteq> i) (tabla d)) \<and>
         (\<forall>path. Some path \<in> {foto_frontal (campos r), foto_serial (campos r), foto_placa (campos r)} \<and>
                 path \<noteq> [] \<and> path \<in> dom fs \<longrightarrow>
            (if throws path
             then Error_eliminando_foto path \<in> set log \<and> path \<in> dom fs'
             else Foto_eliminada path \<in> set log \<and> path \<notin> dom fs'))"
    using del gone log by blast
qed

theorem delete_best_effort_witness:
  "delete_computadores (\<lambda>p. p = ''uploads/b.jpg'') 7
     \<lparr>tabla = [row_fotos], sqlite_sequence = 1\<rparr> fs_fotos =
     (Json 404 (JsObj [(''error'', JsStr ''Registro no encontrado'')]),
      \<lparr>tabla = [row_fotos], sqlite_sequence = 1\<rparr>, fs_fotos, []) \<and>
   (\<exists>fs' log.
      delete_computadores (\<lambda>p. p = ''uploads/b.jpg'') 1
        \<lparr>tabla = [row_fotos], sqlite_sequence = 1\<rparr> fs_fotos =
        (Json 200 (JsObj [(''message'', JsStr ''Registro de soporte eliminado exitosamente'')]),
         \<lparr>tabla = [], sqlite_sequence = 1\<rparr>, fs', log) \<and>
      Foto_eliminada ''uploads/a.jpg'' \<in> set log \<and> ''uploads/a.jpg'' \<notin> dom fs' \<and>
      Error_eliminando_foto ''uploads/b.jpg'' \<in> set log \<and> ''uploads/b.jpg'' \<in> dom fs' \<and>
      Foto_eliminada ''uploads/c.jpg'' \<in> set log \<and> ''uploads/c.jpg'' \<notin> dom fs')"
proof
  let ?d = "\<lparr>tabla = [row_fotos], sqlite_sequence = 1\<rparr>"
  let ?throws = "\<lambda>p. p = ''uploads/b.jpg''"
  have absent: "\<forall>x\<in>set (tabla ?d). id_col x \<noteq> 7" by (simp add: row_fotos_def)
  show "delete_computadores ?throws 7 ?d fs_fotos =
          (Json 404 (JsObj [(''error'', JsStr ''Registro no encontrado'')]), ?d, fs_fotos, [])"
    using delete_best_effort [of ?d 7 ?throws fs_fotos, THEN conjunct1, THEN mp, OF absent] .
  have one: "filter (\<lambda>x. id_col x = 1) (tabla ?d) = [row_fotos]" by (simp add: row_fotos_def)
  from delete_best_effort [of ?d 1 ?throws fs_fotos row_fotos, THEN conjunct2, THEN mp, OF one]
  obtain fs' log where
    del: "delete_computadores ?throws 1 ?d fs_fotos =
           (Json 200 (JsObj [(''message'', JsStr ''Registro de soporte eliminado exitosamente'')]),
            ?d\<lparr>tabla := filter (\<lambda>x. id_col x \<noteq> 1) (tabla ?d)\<rparr>, fs', log)"
    and log: "\<And>path. Some path \<in> {foto_frontal (campos row_fotos), foto_serial (campos row_fotos),
                                  foto_placa (campos row_fotos)} \<and>
                 path \<noteq> [] \<and> path \<in> dom fs_fotos \<Longrightarrow>
            (if ?throws path
             then Error_eliminando_foto path \<in> set log \<and> path \<in> dom fs'
             else Foto_eliminada path \<in> set log \<and> path \<notin> dom fs')"
    by blast
  have a: "Foto_eliminada ''uploads/a.jpg'' \<in> set log \<and> ''uploads/a.jpg'' \<notin> dom fs'"
    using log [of "''uploads/a.jpg''"] by (simp add: row_fotos_def fs_fotos_def)
  have b: "Error_eliminando_foto ''uploads/b.jpg'' \<in> set log \<and> ''uploads/b.jpg'' \<in> dom fs'"
    using log [of "''uploads/b.jpg''"] by (simp add: row_fotos_def fs_fotos_def)
  have c: "Foto_eliminada ''uploads/c.jpg'' \<in> set log \<and> ''uploads/c.jpg'' \<notin> dom fs'"
    using log [of "''uploads/c.jpg''"] by (simp add: row_fotos_def fs_fotos_def)
  have "?d\<lparr>tabla := filter (\<lambda>x. id_col x \<noteq> 1) (tabla ?d)\<rparr> = \<lparr>tabla = [], sqlite_sequence = 1\<rparr>"
    by (simp add: row_fotos_def)
  with del a b c
  show "\<exists>fs' log.
      delete_computadores ?throws 1 ?d fs_fotos =
        (Json 200 (JsObj [(''message'', JsStr ''Registro de soporte eliminado exitosamente'')]),
         \<lparr>tabla = [], sqlite_sequence = 1\<rparr>, fs', log) \<and>
      Foto_eliminada ''uploads/a.jpg'' \<in> set log \<and> ''uploads/a.jpg'' \<notin> dom fs' \<and>
      Error_eliminando_foto ''uploads/b.jpg'' \<in> set log \<and> ''uploads/b.jpg'' \<in> dom fs' \<and>
      Foto_eliminada ''uploads/c.jpg'' \<in> set log \<and> ''uploads/c.jpg'' \<notin> dom fs'"
    by (intro exI [of _ fs'] exI [of _ log]) simp
qed

lemma queries_keys:
  "length queries = 9" "distinct (map fst queries)"
  by (simp_all add: queries_def n_tilde_def)




lemma callback_count:
  "\<not> hasError a \<Longrightarrow> fails (fst q) = None \<Longrightarrow> Suc (completed a) \<noteq> length queries \<Longrightarrow>
   callback (fst q) (db_get_count fails now d q) a =
     a\<lparr>stats := AList.update (fst q) (length (filter (snd q now) (tabla d))) (stats a),
       completed := completed a + 1\<rparr>"
  by (simp add: callback_def db_get_count_def Let_def)

lemma callback_last:
  "\<not> hasError a \<Longrightarrow> fails (fst q) = None \<Longrightarrow> Suc (completed a) = length queries \<Longrightarrow>
   callback (fst q) (db_get_count fails now d q) a =
     a\<lparr>stats := AList.update (fst q) (length (filter (snd q now) (tabla d))) (stats a),
       completed := completed a + 1,
       sent := sent a @
         [Json 200 (JsObj (map (\<lambda>(k, n). (k, JsNum n))
            (AList.update (fst q) (length (filter (snd q now) (tabla d))) (stats a))))]\<rparr>"
  by (simp add: callback_def db_get_count_def Let_def)

lemma fold_callback_counts:
  assumes "\<not> hasError a" and "\<forall>q\<in>set order. fails (fst q) = None"
    and "completed a + length order < length queries"
  shows "fold (\<lambda>q. callback (fst q) (db_get_count fails now d q)) order a =
           a\<lparr>stats := fold (\<lambda>q. AList.update (fst q) (length (filter (snd q now) (tabla d)))) order (stats a),
             completed := completed a + length order\<rparr>"
  using assms
proof (induction order arbitrary: a)
  case Nil
  then show ?case by simp
next
  case (Cons q order)
  let ?a = "a\<lparr>stats := AList.update (fst q) (length (filter (snd q now) (tabla d))) (stats a),
              completed := completed a + 1\<rparr>"
  have step: "callback (fst q) (db_get_count fails now d q) a = ?a"
    using Cons.prems by (intro callback_count) auto
  have "fold (\<lambda>q. callback (fst q) (db_get_count fails now d q)) order ?a =
          ?a\<lparr>stats := fold (\<lambda>q. AList.update (fst q) (length (filter (snd q now) (tabla d)))) order (stats ?a),
             completed := completed ?a + length order\<rparr>"
    using Cons.prems by (intro Cons.IH) auto
  then show ?case by (simp add: step)
qed

lemma fold_update_other:
  "k \<notin> fst ` set order \<Longrightarrow>
   map_of (fold (\<lambda>q. AList.update (fst q) (c q)) order st) k = map_of st k"
  by (induction order arbitrary: st) (auto simp: update_conv')

lemma fold_update_key:
  "distinct (map fst order) \<Longrightarrow> (k, w) \<in> set order \<Longrightarrow>
   map_of (fold (\<lambda>q. AList.update (fst q) (c q)) order st) k = Some (c (k, w))"
proof (induction order arbitrary: st)
  case Nil
  then show ?case by simp
next
  case (Cons q order)
  show ?case
  proof (cases "q = (k, w)")
    case True
    then have "k \<notin> fst ` set order" using Cons.prems(1) by auto
    then show ?thesis using True by (simp add: fold_update_other update_conv')
  next
    case False
    then show ?thesis using Cons by auto
  qed
qed





lemma estadisticas_success:
  assumes len: "length order = length queries" and ok: "\<forall>q\<in>set order. fails (fst q) = None"
  shows "sent (get_estadisticas fails now order d) =
           [Json 200 (JsObj (map (\<lambda>(k, n). (k, JsNum n))
              (fold (\<lambda>q. AList.update (fst q) (length (filter (snd q now) (tabla d)))) order [])))]"
proof -
  let ?a0 = "\<lparr>stats = [], completed = 0, hasError = False, sent = []\<rparr>"
  let ?upd = "\<lambda>q. AList.update (fst q) (length (filter (snd q now) (tabla d)))"
  from len have "order \<noteq> []" by (auto simp: queries_keys)
  then obtain ys q where order: "order = ys @ [q]" by (metis rev_exhaust)
  have ys: "completed ?a0 + length ys < length queries" using len order by simp
  have a1: "fold (\<lambda>q. callback (fst q) (db_get_count fails now d q)) ys ?a0 =
              ?a0\<lparr>stats := fold ?upd ys (stats ?a0), completed := completed ?a0 + length ys\<rparr>"
    using ok order by (intro fold_callback_counts [OF _ _ ys]) auto
  have last: "Suc (length ys) = length queries" using len order by simp
  have "get_estadisticas fails now order d =
          callback (fst q) (db_get_count fails now d q)
            (?a0\<lparr>stats := fold ?upd ys (stats ?a0), completed := completed ?a0 + length ys\<rparr>)"
    by (simp add: get_estadisticas_def order a1)
  also have "\<dots> = \<lparr>stats = ?upd q (fold ?upd ys []), completed = length ys + 1, hasError = False,
                    sent = [Json 200 (JsObj (map (\<lambda>(k, n). (k, JsNum n)) (?upd q (fold ?upd ys []))))]\<rparr>"
    using ok order last by (subst callback_last) auto
  finally show ?thesis by (simp add: order)
qed


subsection \<open>C4: the statistics are complete or absent\<close>



lemma post_computadores_unchanged:
  assumes "post_computadores env req d = (r, d', w)" and "status r \<noteq> 201"
  shows "d' = d"
proof (cases "\<forall>k\<in>set required_fields. truthy (get_key (body req) k)")
  case False
  then have "post_computadores env req d = (campos_faltantes (body req), d, [])"
    using all_required [of "body req"]
    by (simp only: post_computadores_def Let_def) (auto simp: required_fields_def)
  with assms show ?thesis by auto
next
  case True
  show ?thesis
  proof (cases "procesar_fotos env post_tags req")
    case (Pair res written)
    show ?thesis
    proof (cases res)
      case (Inl e)
      have c: "\<not> (\<not> truthy (get_key (body req) ''equipo_id'') \<or> \<not> truthy (get_key (body req) ''serial_number'') \<or>
         \<not> truthy (get_key (body req) ''responsable'') \<or> \<not> truthy (get_key (body req) ''cargo'') \<or>
         \<not> truthy (get_key (body req) ''estado'') \<or> \<not> truthy (get_key (body req) ''windows_update''))"
        using all_required [of "body req"] True by blast
      have "post_computadores env req d = (error_procesando_fotos e, d, written)"
        using Pair Inl
        by (simp only: post_computadores_def Let_def if_not_P [OF c] prod.case sum.case)
      with assms show ?thesis by auto
    next
      case (Inr paths)
      note p = post_computadores_valid [OF True, of env paths written d, unfolded Pair Inr, OF refl]
      show ?thesis
        using p assms
        by (cases "constraint_error (tabla d) (insert_params (body req) paths)")
           (auto simp: db_run_insert_def Let_def)
    qed
  qed
qed

lemma constraint_error_estado:
  "constraint_error others c = None \<Longrightarrow> \<exists>e\<in>set estados. estado c = Some e"
  by (cases "estado c")
     (auto simp: constraint_error_def not_null_columns_def split: list.splits if_splits)

lemma put_computadores_cases:
  assumes "put_computadores env i req d = (r, d', w)"
  shows "(status r \<noteq> 200 \<and> d' = d) \<or>
         (status r = 200 \<and>
          (\<exists>c a. a \<in> set (tabla d) \<and>
                constraint_error (filter (\<lambda>x. id_col x \<noteq> i) (tabla d))
                  (campos (update_set (CURRENT_TIMESTAMP env) c a)) = None \<and>
                d' = d\<lparr>tabla := map (\<lambda>x. if id_col x = i then update_set (CURRENT_TIMESTAMP env) c x else x)
                                  (tabla d)\<rparr>))"
proof (cases "procesar_fotos env put_tags req")
  case (Pair res written)
  show ?thesis
  proof (cases res)
    case (Inl e)
    with Pair assms show ?thesis by (auto simp: put_computadores_def error_procesando_fotos_def)
  next
    case (Inr paths)
    note put = put_computadores_fotos [OF Pair [unfolded Inr], of i d]
    show ?thesis
    proof (cases "filter (\<lambda>x. id_col x = i) (tabla d)")
      case Nil
      then have "\<forall>x\<in>set (tabla d). id_col x \<noteq> i" by (simp add: filter_id_empty)
      from db_update_absent [OF this] put assms show ?thesis
        by (auto simp: registro_no_encontrado_def)
    next
      case (Cons a rest)
      then have "a \<in> set (filter (\<lambda>x. id_col x = i) (tabla d))" by simp
      then have a: "a \<in> set (tabla d)" by simp
      show ?thesis
      proof (cases "constraint_error (filter (\<lambda>x. id_col x \<noteq> i) (tabla d))
                      (campos (update_set (CURRENT_TIMESTAMP env) (update_params (body req) paths) a))")
        case None
        with put db_update_present [OF Cons, of "CURRENT_TIMESTAMP env" "update_params (body req) paths"]
          assms a
        show ?thesis by auto
      next
        case (Some e)
        with put db_update_present [OF Cons, of "CURRENT_TIMESTAMP env" "update_params (body req) paths"]
          assms handle_constraint_400 [OF Some]
        show ?thesis by auto
      qed
    qed
  qed
qed

lemma delete_computadores_db:
  assumes "delete_computadores throws i d fs = (r, d', fs', log)"
  shows "d' = d\<lparr>tabla := filter (\<lambda>x. id_col x \<noteq> i) (tabla d)\<rparr> \<and>
         (status r = 200 \<longleftrightarrow> filter (\<lambda>x. id_col x = i) (tabla d) \<noteq> [])"
  using assms
  by (auto simp: delete_computadores_def db_run_delete_def registro_no_encontrado_def
      split: prod.splits if_splits simp del: eliminar_fotos.simps)


lemma filter_id_le_one:
  "distinct (map id_col rs) \<Longrightarrow> length (filter (\<lambda>x. id_col x = i) rs) \<le> 1"
proof (induction rs)
  case Nil
  then show ?case by simp
next
  case (Cons a rs)
  show ?case
  proof (cases "id_col a = i")
    case True
    have "id_col a \<notin> id_col ` set rs" using Cons.prems by simp
    then have "\<forall>x\<in>set rs. id_col x \<noteq> i" unfolding True [symmetric] by (metis imageI)
    then have "filter (\<lambda>x. id_col x = i) rs = []" by (simp add: filter_id_empty)
    with True show ?thesis by simp
  next
    case False
    with Cons show ?thesis by simp
  qed
qed

lemma apply_op_table:
  assumes ap: "apply_op op d = (r, d')" and ok: "table_ok d"
  shows "table_ok d' \<and>
         length (tabla d') + (if is_deleted (op, r) then 1 else 0) =
         length (tabla d) + (if is_created (op, r) then 1 else 0)"
proof (cases op)
  case (Create env req)
  then obtain w where post: "post_computadores env req d = (r, d', w)"
    using ap by (auto split: prod.splits)
  show ?thesis
  proof (cases "status r = 201")
    case True
    from post_computadores_201 [OF post True]
    obtain paths where ce: "constraint_error (tabla d) (insert_params (body req) paths) = None"
      and d': "d' = \<lparr>tabla = tabla d @
                   [\<lparr>id_col = sqlite_sequence d + 1, campos = insert_params (body req) paths,
                     fecha_revision = CURRENT_TIMESTAMP env,
                     fecha_actualizacion = CURRENT_TIMESTAMP env\<rparr>],
                 sqlite_sequence = sqlite_sequence d + 1\<rparr>"
      by blast
    have "table_ok d'"
      using ok constraint_error_estado [OF ce]
      unfolding table_ok_def d' by (auto simp: le_Suc_eq)
    then show ?thesis using True Create by (simp add: d')
  next
    case False
    from post_computadores_unchanged [OF post False] ok False Create
    show ?thesis by simp
  qed
next
  case (Update env i req)
  then obtain w where put: "put_computadores env i req d = (r, d', w)"
    using ap by (auto split: prod.splits)
  from put_computadores_cases [OF put]
  show ?thesis
  proof
    assume "status r \<noteq> 200 \<and> d' = d"
    with ok Update show ?thesis by simp
  next
    assume "status r = 200 \<and> (\<exists>c a. a \<in> set (tabla d) \<and>
                constraint_error (filter (\<lambda>x. id_col x \<noteq> i) (tabla d))
                  (campos (update_set (CURRENT_TIMESTAMP env) c a)) = None \<and>
                d' = d\<lparr>tabla := map (\<lambda>x. if id_col x = i then update_set (CURRENT_TIMESTAMP env) c x else x)
                                  (tabla d)\<rparr>)"
    then obtain c a where
      ce: "constraint_error (filter (\<lambda>x. id_col x \<noteq> i) (tabla d))
                  (campos (update_set (CURRENT_TIMESTAMP env) c a)) = None"
      and d': "d' = d\<lparr>tabla := map (\<lambda>x. if id_col x = i then update_set (CURRENT_TIMESTAMP env) c x else x)
                                  (tabla d)\<rparr>"
      by blast
    have ids: "map id_col (tabla d') = map id_col (tabla d)"
      by (simp add: d' update_set_simps cong: map_cong)
    have est: "\<exists>e\<in>set estados. estado c = Some e"
      using constraint_error_estado [OF ce] by (simp add: update_set_simps)
    have "table_ok d'"
      unfolding table_ok_def ids using ok est
      by (auto simp: table_ok_def d' update_set_simps)
    moreover have "length (tabla d') = length (tabla d)" by (simp add: d')
    ultimately show ?thesis using Update by simp
  qed
next
  case (Delete throws i fs)
  then obtain fs' log where del: "delete_computadores throws i d fs = (r, d', fs', log)"
    using ap by (auto split: prod.splits)
  from delete_computadores_db [OF del]
  have d': "d' = d\<lparr>tabla := filter (\<lambda>x. id_col x \<noteq> i) (tabla d)\<rparr>"
    and st: "status r = 200 \<longleftrightarrow> filter (\<lambda>x. id_col x = i) (tabla d) \<noteq> []"
    by simp_all
  have t: "table_ok d'" using ok by (auto simp: table_ok_def d' distinct_map_filter)
  have sum: "length (tabla d) = length (filter (\<lambda>x. id_col x = i) (tabla d)) + length (tabla d')"
    using sum_length_filter_compl [of "\<lambda>x. id_col x = i" "tabla d"] by (simp add: d')
  have le: "length (filter (\<lambda>x. id_col x = i) (tabla d)) \<le> 1"
    using ok by (intro filter_id_le_one) (simp add: table_ok_def)
  show ?thesis
  proof (cases "filter (\<lambda>x. id_col x = i) (tabla d)")
    case Nil
    with t sum st Delete show ?thesis by simp
  next
    case (Cons a rest)
    with le have "length (filter (\<lambda>x. id_col x = i) (tabla d)) = 1" by simp
    with t sum st Delete Cons show ?thesis by simp
  qed
qed

lemma run_table:
  assumes "run ops d = (rs, d')" and "table_ok d"
  shows "table_ok d' \<and>
         length (tabla d') + length (filter is_deleted (zip ops rs)) =
         length (tabla d) + length (filter is_created (zip ops rs))"
  using assms
proof (induction ops arbitrary: d rs d')
  case Nil
  then show ?case by simp
next
  case (Cons op ops)
  obtain r d1 where ap: "apply_op op d = (r, d1)" by force
  obtain rs1 d2 where run: "run ops d1 = (rs1, d2)" by force
  from Cons.prems(1) ap run have rs: "rs = r # rs1" and d': "d' = d2" by simp_all
  note step = apply_op_table [OF ap Cons.prems(2)]
  note ih = Cons.IH [OF run step [THEN conjunct1]]
  from step ih show ?case unfolding rs d' by (simp split: if_splits)
qed

lemma apply_op_times:
  assumes ap: "apply_op op d = (r, d')" and ok: "times_ok t d" and le: "\<forall>u\<in>set (timestamps [op]). t \<le> u"
  shows "times_ok (last (t # timestamps [op])) d'"
proof (cases op)
  case (Create env req)
  then obtain w where post: "post_computadores env req d = (r, d', w)"
    using ap by (auto split: prod.splits)
  have t: "t \<le> CURRENT_TIMESTAMP env" using le Create by simp
  show ?thesis
  proof (cases "status r = 201")
    case True
    from post_computadores_201 [OF post True]
    obtain paths where
      d': "d' = \<lparr>tabla = tabla d @
                   [\<lparr>id_col = sqlite_sequence d + 1, campos = insert_params (body req) paths,
                     fecha_revision = CURRENT_TIMESTAMP env,
                     fecha_actualizacion = CURRENT_TIMESTAMP env\<rparr>],
                 sqlite_sequence = sqlite_sequence d + 1\<rparr>"
      by blast
    show ?thesis using ok t Create unfolding times_ok_def d' by auto
  next
    case False
    from post_computadores_unchanged [OF post False] ok t Create
    show ?thesis by (auto simp: times_ok_def)
  qed
next
  case (Update env i req)
  then obtain w where put: "put_computadores env i req d = (r, d', w)"
    using ap by (auto split: prod.splits)
  have t: "t \<le> CURRENT_TIMESTAMP env" using le Update by simp
  from put_computadores_cases [OF put]
  show ?thesis
  proof
    assume "status r \<noteq> 200 \<and> d' = d"
    with ok t Update show ?thesis by (auto simp: times_ok_def)
  next
    assume "status r = 200 \<and> (\<exists>c a. a \<in> set (tabla d) \<and>
                constraint_error (filter (\<lambda>x. id_col x \<noteq> i) (tabla d))
                  (campos (update_set (CURRENT_TIMESTAMP env) c a)) = None \<and>
                d' = d\<lparr>tabla := map (\<lambda>x. if id_col x = i then update_set (CURRENT_TIMESTAMP env) c x else x)
                                  (tabla d)\<rparr>)"
    then obtain c where
      d': "d' = d\<lparr>tabla := map (\<lambda>x. if id_col x = i then update_set (CURRENT_TIMESTAMP env) c x else x)
                                  (tabla d)\<rparr>"
      by blast
    show ?thesis
      using ok t Update unfolding times_ok_def d'
      by (auto simp: update_set_simps)
  qed
next
  case (Delete throws i fs)
  then obtain fs' log where del: "delete_computadores throws i d fs = (r, d', fs', log)"
    using ap by (auto split: prod.splits)
  from delete_computadores_db [OF del] ok Delete
  show ?thesis by (auto simp: times_ok_def)
qed

lemma timestamps_Cons: "timestamps (op # ops) = timestamps [op] @ timestamps ops"
  by (cases op) simp_all

lemma run_times:
  assumes "run ops d = (rs, d')" and "sorted (t # timestamps ops)" and "times_ok t d"
  shows "times_ok (last (t # timestamps ops)) d'"
  using assms
proof (induction ops arbitrary: d rs d' t)
  case Nil
  then show ?case by simp
next
  case (Cons op ops)
  obtain r d1 where ap: "apply_op op d = (r, d1)" by force
  obtain rs1 d2 where run: "run ops d1 = (rs1, d2)" by force
  from Cons.prems(1) ap run have d': "d' = d2" by simp
  let ?t1 = "last (t # timestamps [op])"
  have srt: "sorted (t # timestamps [op] @ timestamps ops)"
    using Cons.prems(2) by (simp only: timestamps_Cons [of op ops])
  then have le: "\<forall>u\<in>set (timestamps [op]). t \<le> u" by auto
  note step = apply_op_times [OF ap Cons.prems(3) le]
  have srt1: "sorted (?t1 # timestamps ops)"
    using srt by (cases op) (auto simp: sorted_append)
  from Cons.IH [OF run srt1 step]
  have "times_ok (last (?t1 # timestamps ops)) d2" .
  moreover have "last (?t1 # timestamps ops) = last (t # timestamps (op # ops))"
    by (cases op) simp_all
  ultimately show ?case by (simp add: d')
qed

lemma count_estados:
  "\<forall>r\<in>set rs. \<exists>e\<in>set estados. estado (campos r) = Some e \<Longrightarrow>
   length (filter (\<lambda>r. estado (campos r) = Some ''operativo'') rs) +
   length (filter (\<lambda>r. estado (campos r) = Some ''mantenimiento'') rs) +
   length (filter (\<lambda>r. estado (campos r) = Some (''da'' @ n_tilde @ ''ado'')) rs) = length rs"
  by (induction rs) (auto simp: estados_def n_tilde_def)

lemma table_ok_empty: "table_ok empty_database"
  by (simp add: table_ok_def empty_database_def)

lemma times_ok_empty: "times_ok t empty_database"
  by (simp add: times_ok_def empty_database_def)

subsection \<open>C5: the three states add up to the total\<close>

text \<open>
  Claim C5. Take the table after any sequence of create, update and delete requests on
  the empty table, and let the nine queries succeed on it, in any order of completion.
  The object sent has \<^verbatim>\<open>total\<close> equal to the number of rows of the table, which is the
  number of records created minus the number deleted, and its counts \<^verbatim>\<open>operativos\<close>,
  \<^verbatim>\<open>mantenimiento\<close> and \<^verbatim>\<open>danados\<close> add up to \<^verbatim>\<open>total\<close>.
\<close>

theorem estadisticas_sum:
  assumes run: "run ops empty_database = (rs, d)" and perm: "mset order = mset queries"
  shows "\<exists>obj total operativos mantenimiento danados.
           sent (get_estadisticas (\<lambda>key. None) now order d) = [Json 200 (JsObj obj)] \<and>
           map_of obj ''total'' = Some (JsNum total) \<and>
           map_of obj ''operativos'' = Some (JsNum operativos) \<and>
           map_of obj ''mantenimiento'' = Some (JsNum mantenimiento) \<and>
           map_of obj (''da'' @ n_tilde @ ''ados'') = Some (JsNum danados) \<and>
           operativos + mantenimiento + danados = total \<and>
           total = length (tabla d) \<and>
           length (tabla d) + length (filter is_deleted (zip ops rs)) =
             length (filter is_created (zip ops rs))"
proof -
  let ?c = "\<lambda>q. length (filter (snd q now) (tabla d))"
  let ?obj = "map (\<lambda>(k, n). (k, JsNum n)) (fold (\<lambda>q. AList.update (fst q) (?c q)) order [])"
  have set: "set order = set queries" using perm by (rule mset_eq_setD)
  have len: "length order = length queries" using perm by (rule mset_eq_length)
  have "mset (map fst order) = mset (map fst queries)" using perm by (metis mset_map)
  then have dist: "distinct (map fst order)"
    using queries_keys(2) by (metis mset_eq_imp_distinct_iff)
  have sent: "sent (get_estadisticas (\<lambda>key. None) now order d) = [Json 200 (JsObj ?obj)]"
    by (intro estadisticas_success len) simp
  have v: "map_of ?obj k = Some (JsNum (length (filter (w now) (tabla d))))"
    if "(k, w) \<in> set queries" for k w
    using fold_update_key [OF dist, of k w ?c "[]"] that set by (simp add: map_of_map)
  note t = run_table [OF run table_ok_empty]
  have est: "\<forall>r\<in>set (tabla d). \<exists>e\<in>set estados. estado (campos r) = Some e"
    using t by (simp add: table_ok_def)
  have "map_of ?obj ''total'' = Some (JsNum (length (tabla d)))"
    using v [of "''total''" "\<lambda>now r. True"] by (simp add: queries_def)
  moreover have "map_of ?obj ''operativos'' =
      Some (JsNum (length (filter (\<lambda>r. estado (campos r) = Some ''operativo'') (tabla d))))"
    using v [of "''operativos''" "\<lambda>now r. estado (campos r) = Some ''operativo''"]
    by (simp add: queries_def)
  moreover have "map_of ?obj ''mantenimiento'' =
      Some (JsNum (length (filter (\<lambda>r. estado (campos r) = Some ''mantenimiento'') (tabla d))))"
    using v [of "''mantenimiento''" "\<lambda>now r. estado (campos r) = Some ''mantenimiento''"]
    by (simp add: queries_def)
  moreover have "map_of ?obj (''da'' @ n_tilde @ ''ados'') =
      Some (JsNum (length (filter (\<lambda>r. estado (campos r) = Some (''da'' @ n_tilde @ ''ado'')) (tabla d))))"
    using v [of "''da'' @ n_tilde @ ''ados''" "\<lambda>now r. estado (campos r) = Some (''da'' @ n_tilde @ ''ado'')"]
    by (simp add: queries_def)
  moreover note count_estados [OF est] sent
  moreover have "length (tabla d) + length (filter is_deleted (zip ops rs)) =
             length (filter is_created (zip ops rs))"
    using t by (simp add: empty_database_def)
  ultimately show ?thesis by blast
qed

subsection \<open>C8: a record is not updated before it is created\<close>

text \<open>
  Claim C8, as amended. Take the table after any sequence of create, update and delete
  requests on the empty table, during which the readings of \<^verbatim>\<open>CURRENT_TIMESTAMP\<close> do not decrease
  from one request to the next. Every row has \<^verbatim>\<open>fecha_revision\<close> at most
  \<^verbatim>\<open>fecha_actualizacion\<close>. A create answered 201 appends a row with both timestamps at
  the current time; an update leaves every \<^verbatim>\<open>fecha_revision\<close> as it was and, when it is
  answered 200, sets \<^verbatim>\<open>fecha_actualizacion\<close> of the row with the identity to the current
  time.
\<close>

theorem fecha_actualizacion_ge_fecha_revision:
  "(run ops empty_database = (rs, d) \<and> sorted (timestamps ops) \<longrightarrow>
      (\<forall>r\<in>set (tabla d). fecha_revision r \<le> fecha_actualizacion r)) \<and>
   (post_computadores env req d0 = (r1, d1, w1) \<and> status r1 = 201 \<longrightarrow>
      (\<exists>row. tabla d1 = tabla d0 @ [row] \<and>
             fecha_revision row = CURRENT_TIMESTAMP env \<and>
             fecha_actualizacion row = CURRENT_TIMESTAMP env)) \<and>
   (put_computadores env i req d0 = (r2, d2, w2) \<longrightarrow>
      map fecha_revision (tabla d2) = map fecha_revision (tabla d0) \<and>
      (status r2 = 200 \<longrightarrow>
         (\<forall>x\<in>set (tabla d2). id_col x = i \<longrightarrow> fecha_actualizacion x = CURRENT_TIMESTAMP env)))"
proof (intro conjI impI)
  assume a: "run ops empty_database = (rs, d) \<and> sorted (timestamps ops)"
  then have "sorted (0 # timestamps ops)" by simp
  from run_times [OF a [THEN conjunct1] this times_ok_empty]
  show "\<forall>r\<in>set (tabla d). fecha_revision r \<le> fecha_actualizacion r"
    by (simp add: times_ok_def)
next
  assume a: "post_computadores env req d0 = (r1, d1, w1) \<and> status r1 = 201"
  from post_computadores_201 [OF a [THEN conjunct1] a [THEN conjunct2]]
  show "\<exists>row. tabla d1 = tabla d0 @ [row] \<and>
             fecha_revision row = CURRENT_TIMESTAMP env \<and>
             fecha_actualizacion row = CURRENT_TIMESTAMP env"
    by auto
next
  assume a: "put_computadores env i req d0 = (r2, d2, w2)"
  from put_computadores_cases [OF a]
  show "map fecha_revision (tabla d2) = map fecha_revision (tabla d0)"
  proof
    assume "status r2 \<noteq> 200 \<and> d2 = d0"
    then show ?thesis by simp
  next
    assume "status r2 = 200 \<and>
          (\<exists>c a. a \<in> set (tabla d0) \<and>
                constraint_error (filter (\<lambda>x. id_col x \<noteq> i) (tabla d0))
                  (campos (update_set (CURRENT_TIMESTAMP env) c a)) = None \<and>
                d2 = d0\<lparr>tabla := map (\<lambda>x. if id_col x = i then update_set (CURRENT_TIMESTAMP env) c x else x)
                                  (tabla d0)\<rparr>)"
    then obtain c where
      "d2 = d0\<lparr>tabla := map (\<lambda>x. if id_col x = i then update_set (CURRENT_TIMESTAMP env) c x else x)
                                  (tabla d0)\<rparr>"
      by blast
    then show ?thesis by (simp add: update_set_simps)
  qed
  assume ok: "status r2 = 200"
  from put_computadores_cases [OF a] ok
  obtain c where
    d2: "d2 = d0\<lparr>tabla := map (\<lambda>x. if id_col x = i then update_set (CURRENT_TIMESTAMP env) c x else x)
                                  (tabla d0)\<rparr>"
    by blast
  show "\<forall>x\<in>set (tabla d2). id_col x = i \<longrightarrow> fecha_actualizacion x = CURRENT_TIMESTAMP env"
  proof (intro ballI impI)
    fix x assume x: "x \<in> set (tabla d2)" and i: "id_col x = i"
    from x obtain y where y: "y \<in> set (tabla d0)"
      and xy: "x = (if id_col y = i then update_set (CURRENT_TIMESTAMP env) c y else y)"
      unfolding d2 by auto
    show "fecha_actualizacion x = CURRENT_TIMESTAMP env"
    proof (cases "id_col y = i")
      case True
      with xy show ?thesis by (simp add: update_set_simps)
    next
      case False
      with xy i show ?thesis by simp
    qed
  qed
qed

lemma post_body_pc:
  assumes "e \<noteq> []" "s \<noteq> []" "Some e \<notin> set (equipo_ids d)"
  shows "post_computadores (entorno_at t) (request_of (body_pc e s)) d =
     (creado (sqlite_sequence d + 1) e s,
      \<lparr>tabla = tabla d @ [row_pc (sqlite_sequence d + 1) e s t t],
        sqlite_sequence = sqlite_sequence d + 1\<rparr>, [])"
proof -
  have ce: "constraint_error (tabla d) (campos_pc e s) = None"
    using assms(3)
    by (auto simp: constraint_error_def not_null_columns_def campos_pc_def estados_def
        windows_updates_def equipo_ids_def intro: rev_image_eqI)
  show ?thesis
    using assms(1,2)
    by (simp add: post_computadores_valid [OF body_pc_required [OF assms(1,2)] body_pc_fotos]
        request_of_simps entorno_at_simps insert_params_body_pc db_run_insert_def ce creado_def
        row_pc_def)
       (simp add: body_pc_def get_key_def)
qed

lemma put_ejemplo:
  "put_computadores (entorno_at 8) 2 (request_of (body_pc ''PC-2'' ''SN9''))
     \<lparr>tabla = [row_pc 1 ''PC-1'' ''SN'' 5 5, row_pc 2 ''PC-2'' ''SN'' 6 6], sqlite_sequence = 2\<rparr> =
     (actualizado,
      \<lparr>tabla = [row_pc 1 ''PC-1'' ''SN'' 5 5, row_pc 2 ''PC-2'' ''SN9'' 6 8], sqlite_sequence = 2\<rparr>, [])"
  by (subst put_computadores_fotos [OF body_pc_fotos])
     (simp add: request_of_simps entorno_at_simps
      db_run_update_def update_params_def update_set_def row_pc_def campos_pc_def body_pc_def
      get_key_def constraint_error_def not_null_columns_def estados_def windows_updates_def
      actualizado_def)

lemma delete_ejemplo:
  "delete_computadores (\<lambda>p. False) 1
     \<lparr>tabla = [row_pc 1 ''PC-1'' ''SN'' 5 5, row_pc 2 ''PC-2'' ''SN9'' 6 8], sqlite_sequence = 2\<rparr>
     Map.empty =
     (eliminado, \<lparr>tabla = [row_pc 2 ''PC-2'' ''SN9'' 6 8], sqlite_sequence = 2\<rparr>, Map.empty, [])"
  by (simp add: delete_computadores_def db_run_delete_def db_get_fotos_def row_pc_def
      campos_pc_def eliminado_def)

lemma run_ejemplo:
  "run ops_ejemplo empty_database =
     ([creado 1 ''PC-1'' ''SN'', creado 2 ''PC-2'' ''SN'', actualizado, eliminado],
      \<lparr>tabla = [row_pc 2 ''PC-2'' ''SN9'' 6 8], sqlite_sequence = 2\<rparr>)"
proof -
  have 1: "post_computadores (entorno_at 5) (request_of (body_pc ''PC-1'' ''SN'')) empty_database =
             (creado 1 ''PC-1'' ''SN'', \<lparr>tabla = [row_pc 1 ''PC-1'' ''SN'' 5 5], sqlite_sequence = 1\<rparr>, [])"
    using post_body_pc [of "''PC-1''" "''SN''" empty_database 5]
    by (simp add: empty_database_def equipo_ids_def)
  have 2: "post_computadores (entorno_at 6) (request_of (body_pc ''PC-2'' ''SN''))
             \<lparr>tabla = [row_pc 1 ''PC-1'' ''SN'' 5 5], sqlite_sequence = 1\<rparr> =
             (creado 2 ''PC-2'' ''SN'',
              \<lparr>tabla = [row_pc 1 ''PC-1'' ''SN'' 5 5, row_pc 2 ''PC-2'' ''SN'' 6 6], sqlite_sequence = 2\<rparr>, [])"
    using post_body_pc [of "''PC-2''" "''SN''"
        "\<lparr>tabla = [row_pc 1 ''PC-1'' ''SN'' 5 5], sqlite_sequence = 1\<rparr>" 6]
    by (simp add: equipo_ids_def row_pc_def campos_pc_def numeral_2_eq_2)
  show ?thesis
    by (simp only: ops_ejemplo_def run.simps apply_op.simps 1 2 put_ejemplo delete_ejemplo
        prod.case)
qed

theorem estadisticas_sum_witness:
  "\<exists>obj operativos mantenimiento danados.
     sent (get_estadisticas (\<lambda>key. None) 10 queries
             \<lparr>tabla = [row_pc 2 ''PC-2'' ''SN9'' 6 8], sqlite_sequence = 2\<rparr>) =
       [Json 200 (JsObj obj)] \<and>
     map_of obj ''total'' = Some (JsNum 1) \<and>
     map_of obj ''operativos'' = Some (JsNum operativos) \<and>
     map_of obj ''mantenimiento'' = Some (JsNum mantenimiento) \<and>
     map_of obj (''da'' @ n_tilde @ ''ados'') = Some (JsNum danados) \<and>
     operativos + mantenimiento + danados = 1 \<and>
     length (filter is_created
       (zip ops_ejemplo [creado 1 ''PC-1'' ''SN'', creado 2 ''PC-2'' ''SN'', actualizado, eliminado])) = 2 \<and>
     length (filter is_deleted
       (zip ops_ejemplo [creado 1 ''PC-1'' ''SN'', creado 2 ''PC-2'' ''SN'', actualizado, eliminado])) = 1"
proof -
  have c: "length (filter is_created
       (zip ops_ejemplo [creado 1 ''PC-1'' ''SN'', creado 2 ''PC-2'' ''SN'', actualizado, eliminado])) = 2"
    and e: "length (filter is_deleted
       (zip ops_ejemplo [creado 1 ''PC-1'' ''SN'', creado 2 ''PC-2'' ''SN'', actualizado, eliminado])) = 1"
    by (simp_all add: ops_ejemplo_def creado_def actualizado_def eliminado_def)
  from estadisticas_sum [OF run_ejemplo refl, of 10] c e
  show ?thesis by auto
qed

theorem fecha_actualizacion_ge_fecha_revision_witness:
  "run ops_ejemplo empty_database =
     ([creado 1 ''PC-1'' ''SN'', creado 2 ''PC-2'' ''SN'', actualizado, eliminado],
      \<lparr>tabla = [row_pc 2 ''PC-2'' ''SN9'' 6 8], sqlite_sequence = 2\<rparr>) \<and>
   timestamps ops_ejemplo = [5, 6, 8] \<and>
   fecha_revision (row_pc 2 ''PC-2'' ''SN9'' 6 8) \<le> fecha_actualizacion (row_pc 2 ''PC-2'' ''SN9'' 6 8) \<and>
   (\<exists>row. tabla \<lparr>tabla = [row_pc 1 ''PC-1'' ''SN'' 5 5], sqlite_sequence = 1\<rparr> =
            tabla empty_database @ [row] \<and>
          fecha_revision row = 5 \<and> fecha_actualizacion row = 5) \<and>
   map fecha_revision [row_pc 1 ''PC-1'' ''SN'' 5 5, row_pc 2 ''PC-2'' ''SN9'' 6 8] =
     map fecha_revision [row_pc 1 ''PC-1'' ''SN'' 5 5, row_pc 2 ''PC-2'' ''SN'' 6 6] \<and>
   fecha_actualizacion (row_pc 2 ''PC-2'' ''SN9'' 6 8) = 8"
proof -
  have ts: "timestamps ops_ejemplo = [5, 6, 8]"
    by (simp add: ops_ejemplo_def entorno_at_simps)
  have srt: "run ops_ejemplo empty_database =
     ([creado 1 ''PC-1'' ''SN'', creado 2 ''PC-2'' ''SN'', actualizado, eliminado],
      \<lparr>tabla = [row_pc 2 ''PC-2'' ''SN9'' 6 8], sqlite_sequence = 2\<rparr>) \<and>
     sorted (timestamps ops_ejemplo)"
    by (simp add: run_ejemplo ts)
  have post: "post_computadores (entorno_at 5) (request_of (body_pc ''PC-1'' ''SN'')) empty_database =
             (creado 1 ''PC-1'' ''SN'', \<lparr>tabla = [row_pc 1 ''PC-1'' ''SN'' 5 5], sqlite_sequence = 1\<rparr>, []) \<and>
             status (creado 1 ''PC-1'' ''SN'') = 201"
    using post_body_pc [of "''PC-1''" "''SN''" empty_database 5]
    by (simp add: empty_database_def equipo_ids_def creado_def)
  note T = fecha_actualizacion_ge_fecha_revision
  have 1: "fecha_revision (row_pc 2 ''PC-2'' ''SN9'' 6 8) \<le> fecha_actualizacion (row_pc 2 ''PC-2'' ''SN9'' 6 8)"
    using T [THEN conjunct1, THEN mp, OF srt] by simp
  have 2: "\<exists>row. tabla \<lparr>tabla = [row_pc 1 ''PC-1'' ''SN'' 5 5], sqlite_sequence = 1\<rparr> =
            tabla empty_database @ [row] \<and>
          fecha_revision row = 5 \<and> fecha_actualizacion row = 5"
    using T [THEN conjunct2, THEN conjunct1, THEN mp, OF post] by (simp add: entorno_at_simps)
  have 3: "map fecha_revision [row_pc 1 ''PC-1'' ''SN'' 5 5, row_pc 2 ''PC-2'' ''SN9'' 6 8] =
     map fecha_revision [row_pc 1 ''PC-1'' ''SN'' 5 5, row_pc 2 ''PC-2'' ''SN'' 6 6] \<and>
     fecha_actualizacion (row_pc 2 ''PC-2'' ''SN9'' 6 8) = 8"
    using T [THEN conjunct2, THEN conjunct2, THEN mp, OF put_ejemplo]
    by (simp add: entorno_at_simps actualizado_def row_pc_def)
  from run_ejemplo ts 1 2 3 show ?thesis by blast
qed

text \<open>
  Claim C8 as stated fails: the claim puts no condition on the clock, and
  \<^verbatim>\<open>CURRENT_TIMESTAMP\<close> is the wall clock of the host. A record created when the clock
  reads 10 and updated after the clock has been set back to 5 is answered 201 and 200 and
  is left with \<^verbatim>\<open>fecha_revision\<close> 10 and \<^verbatim>\<open>fecha_actualizacion\<close> 5.
\<close>

theorem clock_set_back_counterexample:
  "map status (fst (run ops_reloj_atrasado empty_database)) = [201, 200] \<and>
   timestamps ops_reloj_atrasado = [10, 5] \<and>
   tabla (snd (run ops_reloj_atrasado empty_database)) = [row_pc 1 ''PC-1'' ''SN2'' 10 5] \<and>
   fecha_revision (row_pc 1 ''PC-1'' ''SN2'' 10 5) = 10 \<and>
   fecha_actualizacion (row_pc 1 ''PC-1'' ''SN2'' 10 5) = 5 \<and>
   \<not> fecha_revision (row_pc 1 ''PC-1'' ''SN2'' 10 5) \<le> fecha_actualizacion (row_pc 1 ''PC-1'' ''SN2'' 10 5)"
proof -
  have 1: "post_computadores (entorno_at 10) (request_of (body_pc ''PC-1'' ''SN'')) empty_database =
             (creado 1 ''PC-1'' ''SN'', \<lparr>tabla = [row_pc 1 ''PC-1'' ''SN'' 10 10], sqlite_sequence = 1\<rparr>, [])"
    using post_body_pc [of "''PC-1''" "''SN''" empty_database 10]
    by (simp add: empty_database_def equipo_ids_def)
  have 2: "put_computadores (entorno_at 5) 1 (request_of (body_pc ''PC-1'' ''SN2''))
     \<lparr>tabla = [row_pc 1 ''PC-1'' ''SN'' 10 10], sqlite_sequence = 1\<rparr> =
     (actualizado, \<lparr>tabla = [row_pc 1 ''PC-1'' ''SN2'' 10 5], sqlite_sequence = 1\<rparr>, [])"
    by (subst put_computadores_fotos [OF body_pc_fotos])
       (simp add: request_of_simps entorno_at_simps
        db_run_update_def update_params_def update_set_def row_pc_def campos_pc_def body_pc_def
        get_key_def constraint_error_def not_null_columns_def estados_def windows_updates_def
        actualizado_def)
  have r: "run ops_reloj_atrasado empty_database =
     ([creado 1 ''PC-1'' ''SN'', actualizado],
      \<lparr>tabla = [row_pc 1 ''PC-1'' ''SN2'' 10 5], sqlite_sequence = 1\<rparr>)"
    by (simp only: ops_reloj_atrasado_def run.simps apply_op.simps 1 2 prod.case)
  have t: "timestamps ops_reloj_atrasado = [10, 5]"
    by (simp add: ops_reloj_atrasado_def entorno_at_simps)
  show ?thesis
    unfolding r t by (simp add: creado_def actualizado_def row_pc_def)
qed










subsection \<open>C1: what an update writes\<close>




end
